theory Spec2Isabelle
  imports Main
begin

section \<open>Values shared by the three services\<close>

text \<open>
  The repository holds three FastAPI services: the public-key registry
  (\<^verbatim>\<open>support-system/public-key-registry/app/main.py\<close>), the federated catalog
  (\<^verbatim>\<open>support-system/federated-catalog/app/main.py\<close>) and the local catalog with
  authorizations (\<^verbatim>\<open>user-env/local-catalog-authz/app/main.py\<close>). Each handler is
  embedded as a function from the database before the request to the handler's outcome
  and the database after it. A handler that raises never reaches its \<^verbatim>\<open>db.commit()\<close>,
  so every error branch returns the database it was given.

  A Python exception is a value: \<open>HTTPException\<close> with its status code and detail,
  \<open>TypeError\<close>, or another exception named by its class. A detail is a literal text,
  or an f-string that ends in a formatted exception object.
\<close>

datatype exc = HTTPException nat detail | TypeError | OtherException string
  and detail = Txt string | Fmt string exc

fun status_code :: "exc \<Rightarrow> nat" where
  "status_code (HTTPException c d) = c"
| "status_code TypeError = 500"
| "status_code (OtherException n) = 500"

text \<open>
  \<open>status_code\<close> is the status of the HTTP response: an \<open>HTTPException\<close> is answered
  with its own code, and an exception that escapes the handler is answered by the
  framework with 500 (Internal Server Error).

  \<open>datetime.fromisoformat\<close> gives a naive datetime (no offset in the text) or an aware
  one; the integer is the position on the time line. Python refuses to order a naive
  datetime against an aware one (\<open>TypeError\<close>).
\<close>

datatype datetime = Naive int | Aware int

text \<open>The outcome of \<open>VerifyingKey.from_pem\<close>, \<open>base64.b64decode\<close> and \<open>vk.verify\<close>
  taken together: the signature verifies, \<open>BadSignatureError\<close> is raised, or any
  other exception is raised (a key or a signature that does not decode).\<close>

datatype verify_outcome = Verified | BadSignatureError | OtherError string

text \<open>What \<open>requests.get\<close> gives: an exception (no connection), named by its
  class, or a response with its status code and body. Of a JSON object only the field
  \<open>public_key\<close> is read (\<open>None\<close> when the object has no such field); \<open>NotJSON\<close> is a
  body on which \<open>res.json()\<close> or \<open>data.get\<close> raises.\<close>

datatype body = NotJSON | JSON "string option"

datatype reply = Unreachable string | Response nat body

text \<open>The libraries and the network are parameters of the model: the ISO-8601 parser,
  the ECDSA library (called with whatever key the caller holds, \<open>None\<close> included) and
  the HTTP client, keyed by the URL.\<close>

record env =
  fromisoformat :: "string \<Rightarrow> datetime option"
  ecdsa :: "string option \<Rightarrow> string \<Rightarrow> string \<Rightarrow> verify_outcome"
  requests_get :: "string \<Rightarrow> reply"

definition replace_Z :: "string \<Rightarrow> string" where
  "replace_Z s = concat (map (\<lambda>c. if c = CHR ''Z'' then ''+00:00'' else [c]) s)"

text \<open>\<open>check_expire_time\<close> is the same function in all three services. The parse is
  inside the \<open>try\<close>; the comparison \<open>now_dt > expire_dt\<close> is outside it, and \<open>now_dt\<close>
  is aware.\<close>

definition check_expire_time :: "env \<Rightarrow> int \<Rightarrow> string \<Rightarrow> exc + bool" where
  "check_expire_time E now expire_time_str =
     (case fromisoformat E (replace_Z expire_time_str) of
        None \<Rightarrow> Inl (HTTPException 400 (Txt ''Invalid expire_time format''))
      | Some (Naive t) \<Rightarrow> Inl TypeError
      | Some (Aware expire_dt) \<Rightarrow>
          if now > expire_dt then Inl (HTTPException 400 (Txt ''Signature expired''))
          else Inr True)"


text \<open>\<open>verify_signature\<close> of the federated catalog and of the local catalog (the same
  code): \<open>BadSignatureError\<close> becomes 403, every other exception 400.\<close>

definition verify_signature :: "env \<Rightarrow> string option \<Rightarrow> string \<Rightarrow> string \<Rightarrow> exc + bool" where
  "verify_signature E public_key_pem message signature_b64 =
     (case ecdsa E public_key_pem message signature_b64 of
        Verified \<Rightarrow> Inr True
      | BadSignatureError \<Rightarrow> Inl (HTTPException 403 (Txt ''Invalid signature.''))
      | OtherError n \<Rightarrow>
          Inl (HTTPException 400 (Fmt ''Signature verification error: '' (OtherException n))))"

text \<open>\<open>get_public_key\<close> of the federated catalog and of the local catalog (the same
  code). \<open>get_public_key_try\<close> is the body of its \<open>try\<close>; the handler
  \<open>except Exception as e\<close> catches whatever the body raises, the \<open>HTTPException\<close>
  of the body included (\<open>HTTPException\<close> is a subclass of \<open>Exception\<close>).\<close>

definition PUBLIC_KEY_REGISTRY_URL :: string where
  "PUBLIC_KEY_REGISTRY_URL = ''http://host.docker.internal:60000''"

definition get_public_key_try :: "env \<Rightarrow> string \<Rightarrow> exc + string option" where
  "get_public_key_try E user_id =
     (case requests_get E (PUBLIC_KEY_REGISTRY_URL @ ''/get/'' @ user_id) of
        Unreachable n \<Rightarrow> Inl (OtherException n)
      | Response code b \<Rightarrow>
          if code \<noteq> 200 then Inl (HTTPException 403 (Txt ''Public key not found.''))
          else (case b of
                  NotJSON \<Rightarrow> Inl (OtherException ''JSONDecodeError'')
                | JSON fetched_pubkey_pem \<Rightarrow> Inr fetched_pubkey_pem))"

definition get_public_key :: "env \<Rightarrow> string \<Rightarrow> exc + string option" where
  "get_public_key E user_id =
     (case get_public_key_try E user_id of
        Inl e \<Rightarrow> Inl (HTTPException 500 (Fmt ''Failed to fetch public key: '' e))
      | Inr k \<Rightarrow> Inr k)"

section \<open>The public-key registry\<close>

text \<open>Table \<open>public_keys\<close>, primary key \<open>user_id\<close>. Record fields carry a prefix
  naming their record, since the source's field names repeat from class to class.\<close>

record PublicKey =
  pk_user_id :: string
  pk_public_key :: string
  pk_registered_at :: int

record RegisterRequest =
  rr_user_id :: string
  rr_public_key :: string
  rr_signature :: string
  rr_expire_time :: string

record DeleteRequest =
  dr_user_id :: string
  dr_public_key :: string
  dr_signature :: string
  dr_expire_time :: string

text \<open>The registry's responses: the two messages with the user id they name, a key row,
  the list of rows, and the count of \<open>delete_all_keys\<close>.\<close>

datatype pkr_response =
  KeyRegistered string | KeyInfo PublicKey | KeyDeleted string
  | KeyList "PublicKey list" | AllKeysDeleted nat

text \<open>The registry's \<open>verify_signature\<close> returns a bool: \<open>False\<close> on
  \<open>BadSignatureError\<close> and \<open>False\<close> on any other exception (which it prints).\<close>

definition verify_signature_pkr :: "env \<Rightarrow> string \<Rightarrow> string \<Rightarrow> string \<Rightarrow> bool" where
  "verify_signature_pkr E public_key_pem message signature_b64 =
     (case ecdsa E (Some public_key_pem) message signature_b64 of
        Verified \<Rightarrow> True
      | BadSignatureError \<Rightarrow> False
      | OtherError n \<Rightarrow> False)"

definition add_key :: "env \<Rightarrow> int \<Rightarrow> PublicKey list \<Rightarrow> RegisterRequest
    \<Rightarrow> (exc + pkr_response) \<times> PublicKey list" where
  "add_key E now db req =
     (let msg = rr_user_id req @ rr_public_key req @ rr_expire_time req in
      case check_expire_time E now (rr_expire_time req) of
        Inl e \<Rightarrow> (Inl e, db)
      | Inr ok \<Rightarrow>
          if \<not> ok then (Inl (HTTPException 400 (Txt ''Expired signature'')), db)
          else if \<not> verify_signature_pkr E (rr_public_key req) msg (rr_signature req)
          then (Inl (HTTPException 400 (Txt ''Invalid signature'')), db)
          else if find (\<lambda>k. pk_user_id k = rr_user_id req) db \<noteq> None
          then (Inl (HTTPException 409 (Txt ''UserID already registered'')), db)
          else (Inr (KeyRegistered (rr_user_id req)),
                db @ [\<lparr>pk_user_id = rr_user_id req, pk_public_key = rr_public_key req,
                        pk_registered_at = now\<rparr>]))"

definition get_key :: "PublicKey list \<Rightarrow> string \<Rightarrow> (exc + pkr_response) \<times> PublicKey list" where
  "get_key db user_id =
     (case find (\<lambda>k. pk_user_id k = user_id) db of
        None \<Rightarrow> (Inl (HTTPException 404 (Txt ''Key not found'')), db)
      | Some key \<Rightarrow> (Inr (KeyInfo key), db))"

text \<open>\<open>db.delete(key)\<close> deletes by primary key.\<close>

definition delete_key :: "env \<Rightarrow> int \<Rightarrow> PublicKey list \<Rightarrow> DeleteRequest
    \<Rightarrow> (exc + pkr_response) \<times> PublicKey list" where
  "delete_key E now db req =
     (let msg = dr_user_id req @ dr_public_key req @ dr_expire_time req in
      case check_expire_time E now (dr_expire_time req) of
        Inl e \<Rightarrow> (Inl e, db)
      | Inr ok \<Rightarrow>
          if \<not> ok then (Inl (HTTPException 400 (Txt ''Expired signature'')), db)
          else if \<not> verify_signature_pkr E (dr_public_key req) msg (dr_signature req)
          then (Inl (HTTPException 400 (Txt ''Invalid signature'')), db)
          else (case find (\<lambda>k. pk_user_id k = dr_user_id req) db of
                  None \<Rightarrow> (Inl (HTTPException 404 (Txt ''Key not found'')), db)
                | Some key \<Rightarrow>
                    (Inr (KeyDeleted (dr_user_id req)),
                     filter (\<lambda>k. pk_user_id k \<noteq> pk_user_id key) db)))"

definition list_keys :: "PublicKey list \<Rightarrow> (exc + pkr_response) \<times> PublicKey list" where
  "list_keys db = (Inr (KeyList db), db)"

definition delete_all_keys :: "PublicKey list \<Rightarrow> (exc + pkr_response) \<times> PublicKey list" where
  "delete_all_keys db = (Inr (AllKeysDeleted (length db)), [])"

text \<open>The registry's five endpoints as one step function.\<close>

datatype pkr_op =
  AddKey RegisterRequest | GetKey string | DeleteKey DeleteRequest | ListKeys | DeleteAllKeys

fun pkr_step :: "env \<Rightarrow> int \<Rightarrow> pkr_op \<Rightarrow> PublicKey list
    \<Rightarrow> (exc + pkr_response) \<times> PublicKey list" where
  "pkr_step E now (AddKey req) db = add_key E now db req"
| "pkr_step E now (GetKey user_id) db = get_key db user_id"
| "pkr_step E now (DeleteKey req) db = delete_key E now db req"
| "pkr_step E now ListKeys db = list_keys db"
| "pkr_step E now DeleteAllKeys db = delete_all_keys db"

definition registered :: "string \<Rightarrow> PublicKey list \<Rightarrow> bool" where
  "registered user_id db = (find (\<lambda>k. pk_user_id k = user_id) db \<noteq> None)"

section \<open>The federated catalog\<close>

text \<open>Table \<open>federated_catalog\<close>, primary key \<open>data_id\<close>. The catalog's own
  \<open>DeleteRequest\<close> is named \<open>CatalogDeleteRequest\<close> here, the registry's class having
  the same name.\<close>

record FederatedCatalog =
  fc_data_id :: string
  fc_user_id :: string
  fc_description :: string
  fc_endpoint :: string
  fc_created_at :: int

record CatalogItem =
  ci_data_id :: string
  ci_user_id :: string
  ci_description :: string
  ci_endpoint :: string
  ci_signature :: string
  ci_expire_time :: string

record CatalogDeleteRequest =
  cd_user_id :: string
  cd_signature :: string
  cd_expire_time :: string

datatype fc_response =
  EntryAdded CatalogItem | EntryDeleted string | EntryInfo FederatedCatalog
  | AllEntriesDeleted nat


definition delete_entry :: "env \<Rightarrow> int \<Rightarrow> FederatedCatalog list \<Rightarrow> string
    \<Rightarrow> CatalogDeleteRequest \<Rightarrow> (exc + fc_response) \<times> FederatedCatalog list" where
  "delete_entry E now db data_id req =
     (case get_public_key E (cd_user_id req) of
        Inl e \<Rightarrow> (Inl e, db)
      | Inr public_key \<Rightarrow>
          let message = data_id @ cd_user_id req @ cd_expire_time req in
          case check_expire_time E now (cd_expire_time req) of
            Inl e \<Rightarrow> (Inl e, db)
          | Inr ok \<Rightarrow>
              (case verify_signature E public_key message (cd_signature req) of
                 Inl e \<Rightarrow> (Inl e, db)
               | Inr ok' \<Rightarrow>
                   (case find (\<lambda>r. fc_data_id r = data_id) db of
                      None \<Rightarrow> (Inl (HTTPException 404 (Txt ''DataID not found.'')), db)
                    | Some entry \<Rightarrow>
                        if fc_user_id entry \<noteq> cd_user_id req
                        then (Inl (HTTPException 403 (Txt ''User not authorized.'')), db)
                        else (Inr (EntryDeleted data_id),
                              filter (\<lambda>r. fc_data_id r \<noteq> fc_data_id entry) db))))"

definition get_by_dataid :: "FederatedCatalog list \<Rightarrow> string
    \<Rightarrow> (exc + fc_response) \<times> FederatedCatalog list" where
  "get_by_dataid db data_id =
     (case find (\<lambda>r. fc_data_id r = data_id) db of
        None \<Rightarrow> (Inl (HTTPException 404 (Txt ''DataID not found.'')), db)
      | Some entry \<Rightarrow> (Inr (EntryInfo entry), db))"

definition fc_reset_all :: "FederatedCatalog list \<Rightarrow> (exc + fc_response) \<times> FederatedCatalog list" where
  "fc_reset_all db = (Inr (AllEntriesDeleted (length db)), [])"

section \<open>The local catalog with authorizations\<close>

text \<open>Tables \<open>local_catalog\<close> (primary key \<open>data_id\<close>) and \<open>local_authorization\<close>
  (primary key \<open>data_id\<close>, \<open>access_grantee_id\<close>; \<open>data_id\<close> is a foreign key into
  \<open>local_catalog\<close> with \<open>ondelete="CASCADE"\<close>, and \<open>LocalCatalog.authorizations\<close> is a
  relationship with \<open>cascade="all, delete-orphan"\<close>). \<open>description\<close> is nullable, in
  the table and in the request classes (\<open>str | None = None\<close>). The column
  \<open>expire_at\<close> holds an instant; a naive datetime is stored as the same reading in
  UTC.\<close>

record LocalCatalog =
  lc_data_id :: string
  lc_description :: "string option"
  lc_admin_id :: string
  lc_endpoint :: string
  lc_created_at :: int

record LocalAuthorization =
  la_data_id :: string
  la_access_grantee_id :: string
  la_expire_at :: int
  la_created_at :: int

record lca_db =
  catalog :: "LocalCatalog list"
  authz :: "LocalAuthorization list"

record DataItem =
  di_data_id :: string
  di_description :: "string option"
  di_admin_id :: string
  di_endpoint :: string
  di_expire_time :: string
  di_signature :: string

record AuthZItem =
  az_data_id :: string
  az_access_grantee_id :: string
  az_expire_at :: string
  az_expire_time :: string
  az_signature :: string

record SignedGetRequest =
  sg_admin_id :: string
  sg_expire_time :: string
  sg_signature :: string

record SignedDeleteCatalogRequest =
  sd_description :: "string option"
  sd_admin_id :: string
  sd_endpoint :: string
  sd_expire_time :: string
  sd_signature :: string

record SignedDeleteAuthZRequest =
  sa_expire_time :: string
  sa_signature :: string

text \<open>The responses: the messages with the ids they name; the row of \<open>get_data\<close>;
  \<open>data_id\<close>, \<open>valid_authz_count\<close> and \<open>valid_authz\<close> (grantee and deadline) of
  \<open>get_authz\<close>; both tables of \<open>debug_all\<close>; the two counts of \<open>reset_all\<close>.\<close>

datatype lca_response =
  DataRegistered string | AuthZAdded string string | DataInfo LocalCatalog
  | AuthZInfo string nat "(string \<times> int) list" | DataDeleted string
  | AuthZDeleted string string | DebugAll "LocalCatalog list" "LocalAuthorization list"
  | ResetDone nat nat

text \<open>\<open>get_admin_id_by_data_id\<close>: \<open>get_admin_id_by_data_id_try\<close> is the body of the
  \<open>try\<close>, and \<open>except Exception as e\<close> catches the body's own 404.\<close>

definition get_admin_id_by_data_id_try :: "lca_db \<Rightarrow> string \<Rightarrow> exc + string" where
  "get_admin_id_by_data_id_try db data_id =
     (case find (\<lambda>r. lc_data_id r = data_id) (catalog db) of
        None \<Rightarrow> Inl (HTTPException 404
                  (Txt (''DataID '' @ [CHR 0x27] @ data_id @ [CHR 0x27] @ '' not found in catalog.'')))
      | Some entry \<Rightarrow> Inr (lc_admin_id entry))"

definition get_admin_id_by_data_id :: "lca_db \<Rightarrow> string \<Rightarrow> exc + string" where
  "get_admin_id_by_data_id db data_id =
     (case get_admin_id_by_data_id_try db data_id of
        Inl e \<Rightarrow> Inl (HTTPException 500
                  (Fmt (''Failed to retrieve admin_id for DataID '' @ [CHR 0x27] @ data_id
                        @ [CHR 0x27] @ '': '') e))
      | Inr admin_id \<Rightarrow> Inr admin_id)"

text \<open>\<open>str + None\<close> raises \<open>TypeError\<close>: the message of \<open>add_data\<close> and of
  \<open>delete_data\<close> concatenates \<open>description\<close> as it came.\<close>

definition data_msg :: "string \<Rightarrow> string option \<Rightarrow> string \<Rightarrow> string \<Rightarrow> string \<Rightarrow> exc + string" where
  "data_msg data_id description admin_id endpoint expire_time =
     (case description of
        None \<Rightarrow> Inl TypeError
      | Some d \<Rightarrow> Inr (data_id @ d @ admin_id @ endpoint @ expire_time))"

definition add_data :: "env \<Rightarrow> int \<Rightarrow> lca_db \<Rightarrow> DataItem \<Rightarrow> (exc + lca_response) \<times> lca_db" where
  "add_data E now db item =
     (case check_expire_time E now (di_expire_time item) of
        Inl e \<Rightarrow> (Inl e, db)
      | Inr ok \<Rightarrow>
      (case get_public_key E (di_admin_id item) of
        Inl e \<Rightarrow> (Inl e, db)
      | Inr fetched_pubkey_pem \<Rightarrow>
      (case data_msg (di_data_id item) (di_description item) (di_admin_id item)
              (di_endpoint item) (di_expire_time item) of
        Inl e \<Rightarrow> (Inl e, db)
      | Inr msg \<Rightarrow>
      (case verify_signature E fetched_pubkey_pem msg (di_signature item) of
        Inl e \<Rightarrow> (Inl e, db)
      | Inr ok' \<Rightarrow>
          if find (\<lambda>r. lc_data_id r = di_data_id item) (catalog db) \<noteq> None
          then (Inl (HTTPException 400 (Txt ''DataID already exists.'')), db)
          else (Inr (DataRegistered (di_data_id item)),
                db\<lparr>catalog := catalog db @
                     [\<lparr>lc_data_id = di_data_id item, lc_description = di_description item,
                       lc_admin_id = di_admin_id item, lc_endpoint = di_endpoint item,
                       lc_created_at = now\<rparr>]\<rparr>)))))"

definition to_timestamptz :: "datetime \<Rightarrow> int" where
  "to_timestamptz d = (case d of Naive t \<Rightarrow> t | Aware t \<Rightarrow> t)"

definition add_authz :: "env \<Rightarrow> int \<Rightarrow> lca_db \<Rightarrow> AuthZItem \<Rightarrow> (exc + lca_response) \<times> lca_db" where
  "add_authz E now db item =
     (case check_expire_time E now (az_expire_time item) of
        Inl e \<Rightarrow> (Inl e, db)
      | Inr ok \<Rightarrow>
      (case get_admin_id_by_data_id db (az_data_id item) of
        Inl e \<Rightarrow> (Inl e, db)
      | Inr admin_id \<Rightarrow>
      (case get_public_key E admin_id of
        Inl e \<Rightarrow> (Inl e, db)
      | Inr fetched_pubkey_pem \<Rightarrow>
      (let msg = az_data_id item @ az_access_grantee_id item @ az_expire_at item
                   @ az_expire_time item in
       case verify_signature E fetched_pubkey_pem msg (az_signature item) of
        Inl e \<Rightarrow> (Inl e, db)
      | Inr ok' \<Rightarrow>
          if find (\<lambda>r. lc_data_id r = az_data_id item) (catalog db) = None
          then (Inl (HTTPException 404 (Txt ''DataID not found.'')), db)
          else if find (\<lambda>a. la_data_id a = az_data_id item
                            \<and> la_access_grantee_id a = az_access_grantee_id item) (authz db) \<noteq> None
          then (Inl (HTTPException 400 (Txt ''AuthZ already exists.'')), db)
          else (case fromisoformat E (replace_Z (az_expire_at item)) of
                  None \<Rightarrow> (Inl (HTTPException 400 (Txt ''Invalid expire_at format'')), db)
                | Some expire_dt \<Rightarrow>
                    (Inr (AuthZAdded (az_access_grantee_id item) (az_expire_at item)),
                     db\<lparr>authz := authz db @
                          [\<lparr>la_data_id = az_data_id item,
                            la_access_grantee_id = az_access_grantee_id item,
                            la_expire_at = to_timestamptz expire_dt,
                            la_created_at = now\<rparr>]\<rparr>))))))"

definition get_data :: "env \<Rightarrow> int \<Rightarrow> lca_db \<Rightarrow> string \<Rightarrow> SignedGetRequest
    \<Rightarrow> (exc + lca_response) \<times> lca_db" where
  "get_data E now db data_id req =
     (case find (\<lambda>r. lc_data_id r = data_id) (catalog db) of
        None \<Rightarrow> (Inl (HTTPException 404 (Txt ''DataID not found.'')), db)
      | Some entry \<Rightarrow>
          if sg_admin_id req \<noteq> lc_admin_id entry
          then (Inl (HTTPException 403 (Txt ''User not authorized.'')), db)
          else
      (case check_expire_time E now (sg_expire_time req) of
        Inl e \<Rightarrow> (Inl e, db)
      | Inr ok \<Rightarrow>
      (case get_public_key E (sg_admin_id req) of
        Inl e \<Rightarrow> (Inl e, db)
      | Inr fetched_pubkey_pem \<Rightarrow>
      (case verify_signature E fetched_pubkey_pem (sg_expire_time req) (sg_signature req) of
        Inl e \<Rightarrow> (Inl e, db)
      | Inr ok' \<Rightarrow> (Inr (DataInfo entry), db)))))"

text \<open>\<open>get_authz\<close> reads the clock twice: in \<open>check_expire_time\<close> (\<open>now\<close>) and for the
  query (\<open>now'\<close>), which keeps the rows whose \<open>expire_at\<close> is after it.\<close>

definition get_authz :: "env \<Rightarrow> int \<Rightarrow> int \<Rightarrow> lca_db \<Rightarrow> string \<Rightarrow> SignedGetRequest
    \<Rightarrow> (exc + lca_response) \<times> lca_db" where
  "get_authz E now now' db data_id req =
     (case find (\<lambda>r. lc_data_id r = data_id) (catalog db) of
        None \<Rightarrow> (Inl (HTTPException 404 (Txt ''DataID not found.'')), db)
      | Some entry \<Rightarrow>
          if sg_admin_id req \<noteq> lc_admin_id entry
          then (Inl (HTTPException 403 (Txt ''User not authorized.'')), db)
          else
      (case check_expire_time E now (sg_expire_time req) of
        Inl e \<Rightarrow> (Inl e, db)
      | Inr ok \<Rightarrow>
      (case get_public_key E (sg_admin_id req) of
        Inl e \<Rightarrow> (Inl e, db)
      | Inr fetched_pubkey_pem \<Rightarrow>
      (case verify_signature E fetched_pubkey_pem (sg_expire_time req) (sg_signature req) of
        Inl e \<Rightarrow> (Inl e, db)
      | Inr ok' \<Rightarrow>
          (let results = filter (\<lambda>a. la_data_id a = data_id \<and> la_expire_at a > now') (authz db)
           in (Inr (AuthZInfo data_id (length results)
                      (map (\<lambda>r. (la_access_grantee_id r, la_expire_at r)) results)), db))))))"

text \<open>\<open>x or ""\<close> of Python, for a nullable string.\<close>

definition or_empty :: "string option \<Rightarrow> string" where
  "or_empty x = (case x of None \<Rightarrow> [] | Some s \<Rightarrow> s)"

text \<open>\<open>db.delete(entry)\<close> on a \<open>LocalCatalog\<close> row deletes the row and, through the
  relationship's cascade, every \<open>local_authorization\<close> row of the same \<open>data_id\<close>, in
  the one transaction that \<open>db.commit()\<close> ends.\<close>

definition delete_data :: "env \<Rightarrow> int \<Rightarrow> lca_db \<Rightarrow> string \<Rightarrow> SignedDeleteCatalogRequest
    \<Rightarrow> (exc + lca_response) \<times> lca_db" where
  "delete_data E now db data_id req =
     (case find (\<lambda>r. lc_data_id r = data_id) (catalog db) of
        None \<Rightarrow> (Inl (HTTPException 404 (Txt ''DataID not found.'')), db)
      | Some entry \<Rightarrow>
          if data_id \<noteq> lc_data_id entry \<or> sd_admin_id req \<noteq> lc_admin_id entry
             \<or> sd_endpoint req \<noteq> lc_endpoint entry
             \<or> or_empty (sd_description req) \<noteq> or_empty (lc_description entry)
          then (Inl (HTTPException 400 (Txt ''Request data does not match stored record.'')), db)
          else
      (case check_expire_time E now (sd_expire_time req) of
        Inl e \<Rightarrow> (Inl e, db)
      | Inr ok \<Rightarrow>
      (case get_public_key E (sd_admin_id req) of
        Inl e \<Rightarrow> (Inl e, db)
      | Inr fetched_pubkey_pem \<Rightarrow>
      (case data_msg data_id (sd_description req) (sd_admin_id req) (sd_endpoint req)
              (sd_expire_time req) of
        Inl e \<Rightarrow> (Inl e, db)
      | Inr msg \<Rightarrow>
      (case verify_signature E fetched_pubkey_pem msg (sd_signature req) of
        Inl e \<Rightarrow> (Inl e, db)
      | Inr ok' \<Rightarrow>
          (Inr (DataDeleted data_id),
           \<lparr>catalog = filter (\<lambda>r. lc_data_id r \<noteq> lc_data_id entry) (catalog db),
            authz = filter (\<lambda>a. la_data_id a \<noteq> lc_data_id entry) (authz db)\<rparr>))))))"

definition delete_authz :: "env \<Rightarrow> int \<Rightarrow> lca_db \<Rightarrow> string \<Rightarrow> string
    \<Rightarrow> SignedDeleteAuthZRequest \<Rightarrow> (exc + lca_response) \<times> lca_db" where
  "delete_authz E now db data_id access_grantee_id req =
     (case find (\<lambda>a. la_data_id a = data_id \<and> la_access_grantee_id a = access_grantee_id)
             (authz db) of
        None \<Rightarrow> (Inl (HTTPException 404 (Txt ''AuthZ not found.'')), db)
      | Some auth \<Rightarrow>
      (case check_expire_time E now (sa_expire_time req) of
        Inl e \<Rightarrow> (Inl e, db)
      | Inr ok \<Rightarrow>
      (case get_admin_id_by_data_id db data_id of
        Inl e \<Rightarrow> (Inl e, db)
      | Inr admin_id \<Rightarrow>
      (case get_public_key E admin_id of
        Inl e \<Rightarrow> (Inl e, db)
      | Inr fetched_pubkey_pem \<Rightarrow>
      (let msg = data_id @ access_grantee_id @ sa_expire_time req in
       case verify_signature E fetched_pubkey_pem msg (sa_signature req) of
        Inl e \<Rightarrow> (Inl e, db)
      | Inr ok' \<Rightarrow>
          (Inr (AuthZDeleted access_grantee_id data_id),
           db\<lparr>authz := filter (\<lambda>a. \<not> (la_data_id a = la_data_id auth
                     \<and> la_access_grantee_id a = la_access_grantee_id auth)) (authz db)\<rparr>))))))"

definition debug_all :: "lca_db \<Rightarrow> (exc + lca_response) \<times> lca_db" where
  "debug_all db = (Inr (DebugAll (catalog db) (authz db)), db)"

definition reset_all :: "lca_db \<Rightarrow> (exc + lca_response) \<times> lca_db" where
  "reset_all db =
     (Inr (ResetDone (length (catalog db)) (length (authz db))), \<lparr>catalog = [], authz = []\<rparr>)"

text \<open>The service's endpoints as one step function, and a run of requests, each with the
  environment and the clock readings it meets.\<close>

datatype lca_op =
  AddData DataItem | AddAuthz AuthZItem | GetData string SignedGetRequest
  | GetAuthz string SignedGetRequest | DeleteData string SignedDeleteCatalogRequest
  | DeleteAuthz string string SignedDeleteAuthZRequest | DebugAllOp | ResetAll

fun lca_step :: "env \<Rightarrow> int \<Rightarrow> int \<Rightarrow> lca_op \<Rightarrow> lca_db \<Rightarrow> (exc + lca_response) \<times> lca_db" where
  "lca_step E now now' (AddData item) db = add_data E now db item"
| "lca_step E now now' (AddAuthz item) db = add_authz E now db item"
| "lca_step E now now' (GetData data_id req) db = get_data E now db data_id req"
| "lca_step E now now' (GetAuthz data_id req) db = get_authz E now now' db data_id req"
| "lca_step E now now' (DeleteData data_id req) db = delete_data E now db data_id req"
| "lca_step E now now' (DeleteAuthz data_id g req) db = delete_authz E now db data_id g req"
| "lca_step E now now' DebugAllOp db = debug_all db"
| "lca_step E now now' ResetAll db = reset_all db"

fun lca_run :: "(env \<times> int \<times> int \<times> lca_op) list \<Rightarrow> lca_db \<Rightarrow> lca_db" where
  "lca_run [] db = db"
| "lca_run ((E, now, now', op) # rest) db = lca_run rest (snd (lca_step E now now' op db))"

text \<open>A grant is orphaned when no \<open>local_catalog\<close> row has its \<open>data_id\<close>.\<close>

definition no_orphans :: "lca_db \<Rightarrow> bool" where
  "no_orphans db =
     list_all (\<lambda>a. find (\<lambda>r. lc_data_id r = la_data_id a) (catalog db) \<noteq> None) (authz db)"

definition grants_of :: "string \<Rightarrow> lca_db \<Rightarrow> LocalAuthorization list" where
  "grants_of data_id db = filter (\<lambda>a. la_data_id a = data_id) (authz db)"

section \<open>Conditions the properties speak of\<close>

text \<open>A remove request for \<open>user_id\<close> whose submitted key is the stored key and whose
  signature verifies against that key.\<close>

definition key_matching_signed_delete :: "env \<Rightarrow> PublicKey list \<Rightarrow> string \<Rightarrow> pkr_op \<Rightarrow> bool" where
  "key_matching_signed_delete E db user_id op =
     (case op of
        DeleteKey req \<Rightarrow>
          dr_user_id req = user_id \<and>
          (case find (\<lambda>k. pk_user_id k = user_id) db of
             None \<Rightarrow> False
           | Some key \<Rightarrow>
               dr_public_key req = pk_public_key key \<and>
               ecdsa E (Some (pk_public_key key))
                 (dr_user_id req @ dr_public_key req @ dr_expire_time req) (dr_signature req)
                 = Verified)
      | _ \<Rightarrow> False)"

text \<open>A remove request for \<open>user_id\<close> that passes the expiry check and whose signature
  verifies against the key the request itself submits.\<close>

definition signed_delete :: "env \<Rightarrow> int \<Rightarrow> string \<Rightarrow> pkr_op \<Rightarrow> bool" where
  "signed_delete E now user_id op =
     (case op of
        DeleteKey req \<Rightarrow>
          dr_user_id req = user_id \<and>
          check_expire_time E now (dr_expire_time req) = Inr True \<and>
          ecdsa E (Some (dr_public_key req))
            (dr_user_id req @ dr_public_key req @ dr_expire_time req) (dr_signature req)
            = Verified
      | _ \<Rightarrow> False)"

definition has_grant :: "string \<Rightarrow> string \<Rightarrow> lca_db \<Rightarrow> bool" where
  "has_grant data_id grantee db =
     (find (\<lambda>a. la_data_id a = data_id \<and> la_access_grantee_id a = grantee) (authz db) \<noteq> None)"

text \<open>The requests that delete grant rows: \<open>delete_authz\<close> for the pair, \<open>delete_data\<close>
  for the resource (through the cascade), and \<open>reset_all\<close>.\<close>

definition revokes :: "string \<Rightarrow> string \<Rightarrow> lca_op \<Rightarrow> bool" where
  "revokes data_id grantee op =
     (case op of
        DeleteAuthz d g req \<Rightarrow> d = data_id \<and> g = grantee
      | DeleteData d req \<Rightarrow> d = data_id
      | ResetAll \<Rightarrow> True
      | _ \<Rightarrow> False)"

definition is_error :: "exc + 'a \<Rightarrow> bool" where
  "is_error r = (case r of Inl e \<Rightarrow> True | Inr v \<Rightarrow> False)"

section \<open>A concrete environment\<close>

text \<open>An environment on which the definitions can be run: a parser that knows four
  timestamps, a stand-in signature scheme in which the signature of \<open>m\<close> under key \<open>k\<close>
  is the text \<open>k|m\<close> and \<open>%%\<close> is a signature that does not decode, and a registry that
  holds the keys of \<open>alice\<close> and \<open>bob\<close>. \<open>demo_env_down\<close> is the same with the registry
  unreachable.\<close>

definition demo_fromisoformat :: "string \<Rightarrow> datetime option" where
  "demo_fromisoformat s =
     (if s = ''2020-01-01T00:00:00+00:00'' then Some (Aware 1577836800)
      else if s = ''2025-11-02T21:45:00+00:00'' then Some (Aware 1762119900)
      else if s = ''2025-11-03T12:00:00+00:00'' then Some (Aware 1762171200)
      else if s = ''2025-11-02T21:45:00'' then Some (Naive 1762119900)
      else None)"

definition demo_ecdsa :: "string option \<Rightarrow> string \<Rightarrow> string \<Rightarrow> verify_outcome" where
  "demo_ecdsa key message signature_b64 =
     (case key of
        None \<Rightarrow> OtherError ''AttributeError''
      | Some k \<Rightarrow>
          if signature_b64 = ''%%'' then OtherError ''binascii.Error''
          else if signature_b64 = k @ ''|'' @ message then Verified
          else BadSignatureError)"

definition demo_requests_get :: "string \<Rightarrow> reply" where
  "demo_requests_get url =
     (if url = ''http://host.docker.internal:60000/get/alice'' then Response 200 (JSON (Some ''PEM-A''))
      else if url = ''http://host.docker.internal:60000/get/bob'' then Response 200 (JSON (Some ''PEM-B''))
      else Response 404 (JSON None))"

definition demo_env :: env where
  "demo_env = \<lparr>fromisoformat = demo_fromisoformat, ecdsa = demo_ecdsa,
                requests_get = demo_requests_get\<rparr>"

definition demo_env_down :: env where
  "demo_env_down = \<lparr>fromisoformat = demo_fromisoformat, ecdsa = demo_ecdsa,
                     requests_get = (\<lambda>url. Unreachable ''ConnectionError'')\<rparr>"

section \<open>Facts about table lookups\<close>

lemma find_Some_key: "find (\<lambda>r. f r = k) xs = Some x \<Longrightarrow> f x = k"
  by (auto simp: find_Some_iff)

section \<open>The registry: when a key record disappears\<close>

lemma registered_iff: "registered u db = (\<exists>k \<in> set db. pk_user_id k = u)"
  by (auto simp: registered_def find_None_iff)

lemma registered_add_key:
  "registered u db \<Longrightarrow> registered u (snd (add_key E now db req))"
  by (auto simp: registered_iff add_key_def Let_def split: sum.splits)

lemma delete_key_removes:
  assumes "registered u db" "\<not> registered u (snd (delete_key E now db req))"
  shows "signed_delete E now u (DeleteKey req)"
proof -
  from assms have neq: "snd (delete_key E now db req) \<noteq> db" by auto
  then obtain key where ok: "check_expire_time E now (dr_expire_time req) = Inr True"
    and v: "verify_signature_pkr E (dr_public_key req)
              (dr_user_id req @ dr_public_key req @ dr_expire_time req) (dr_signature req)"
    and f: "find (\<lambda>k. pk_user_id k = dr_user_id req) db = Some key"
    by (auto simp: delete_key_def Let_def split: sum.splits if_splits option.splits)
  from f have k: "pk_user_id key = dr_user_id req"
    by (auto simp: find_Some_iff)
  from ok v f have db': "snd (delete_key E now db req) = filter (\<lambda>k. pk_user_id k \<noteq> pk_user_id key) db"
    by (simp add: delete_key_def Let_def)
  from assms db' k have "dr_user_id req = u"
    by (auto simp: registered_iff)
  moreover from v have "ecdsa E (Some (dr_public_key req))
            (dr_user_id req @ dr_public_key req @ dr_expire_time req) (dr_signature req) = Verified"
    by (auto simp: verify_signature_pkr_def split: verify_outcome.splits)
  ultimately show ?thesis using ok by (simp add: signed_delete_def)
qed

text \<open>
  Claim C1, as the code has it. A key record that is on file before a request and gone
  after it was removed by \<open>delete_all_keys\<close>, which takes no signature and empties the
  table, or by a \<open>delete_key\<close> request that names the identity, passes the expiry
  check, and carries a signature that verifies against the public key submitted in the
  same request, over \<open>user_id\<close>, \<open>public_key\<close> and \<open>expire_time\<close> concatenated.
  \<open>add_key\<close>, \<open>get_key\<close> and \<open>list_keys\<close> remove nothing.
\<close>

theorem key_record_removal:
  "registered user_id db \<Longrightarrow> \<not> registered user_id (snd (pkr_step E now op db)) \<Longrightarrow>
     op = DeleteAllKeys \<or> signed_delete E now user_id op"
proof (cases op)
  case (AddKey req)
  assume "registered user_id db" "\<not> registered user_id (snd (pkr_step E now op db))"
  with AddKey show ?thesis using registered_add_key by auto
next
  case (DeleteKey req)
  assume "registered user_id db" "\<not> registered user_id (snd (pkr_step E now op db))"
  with DeleteKey show ?thesis using delete_key_removes by auto
qed (auto simp: get_key_def list_keys_def split: option.splits)

text \<open>The theorem at a signed remove request for the one record on file.\<close>

theorem key_record_removal_witness:
  "registered ''userA'' [\<lparr>pk_user_id = ''userA'', pk_public_key = ''PEM-A'', pk_registered_at = 0\<rparr>]
   \<and> \<not> registered ''userA'' (snd (pkr_step demo_env 1762119000
          (DeleteKey \<lparr>dr_user_id = ''userA'', dr_public_key = ''PEM-A'',
             dr_signature = ''PEM-A|userAPEM-A2025-11-02T21:45:00Z'',
             dr_expire_time = ''2025-11-02T21:45:00Z''\<rparr>)
          [\<lparr>pk_user_id = ''userA'', pk_public_key = ''PEM-A'', pk_registered_at = 0\<rparr>]))
   \<and> signed_delete demo_env 1762119000 ''userA''
          (DeleteKey \<lparr>dr_user_id = ''userA'', dr_public_key = ''PEM-A'',
             dr_signature = ''PEM-A|userAPEM-A2025-11-02T21:45:00Z'',
             dr_expire_time = ''2025-11-02T21:45:00Z''\<rparr>)"
proof -
  let ?db = "[\<lparr>pk_user_id = ''userA'', pk_public_key = ''PEM-A'', pk_registered_at = 0\<rparr>]"
  let ?op = "DeleteKey \<lparr>dr_user_id = ''userA'', dr_public_key = ''PEM-A'',
             dr_signature = ''PEM-A|userAPEM-A2025-11-02T21:45:00Z'',
             dr_expire_time = ''2025-11-02T21:45:00Z''\<rparr>"
  have a: "registered ''userA'' ?db" by (simp add: registered_def)
  have b: "\<not> registered ''userA'' (snd (pkr_step demo_env 1762119000 ?op ?db))"
    by (simp add: registered_def delete_key_def check_expire_time_def demo_env_def
          demo_fromisoformat_def replace_Z_def verify_signature_pkr_def demo_ecdsa_def)
  from key_record_removal [OF a b] a b show ?thesis by simp
qed

text \<open>
  The claim as written fails twice. \<open>delete_all_keys\<close> destroys the record of
  \<open>userA\<close> without any remove request, signed or not. And \<open>delete_key\<close> looks the
  record up by \<open>user_id\<close> alone and never reads the stored key: a request that submits
  another key, \<open>PEM-M\<close>, and is signed with it removes the record of \<open>userA\<close>, whose
  stored key is \<open>PEM-A\<close>.
\<close>

theorem delete_all_keys_counterexample:
  "registered ''userA'' [\<lparr>pk_user_id = ''userA'', pk_public_key = ''PEM-A'', pk_registered_at = 0\<rparr>]
   \<and> \<not> registered ''userA'' (snd (pkr_step demo_env 1762119000 DeleteAllKeys
          [\<lparr>pk_user_id = ''userA'', pk_public_key = ''PEM-A'', pk_registered_at = 0\<rparr>]))
   \<and> \<not> key_matching_signed_delete demo_env
          [\<lparr>pk_user_id = ''userA'', pk_public_key = ''PEM-A'', pk_registered_at = 0\<rparr>]
          ''userA'' DeleteAllKeys
   \<and> pkr_step demo_env 1762119000
        (DeleteKey \<lparr>dr_user_id = ''userA'', dr_public_key = ''PEM-M'',
           dr_signature = ''PEM-M|userAPEM-M2025-11-02T21:45:00Z'',
           dr_expire_time = ''2025-11-02T21:45:00Z''\<rparr>)
        [\<lparr>pk_user_id = ''userA'', pk_public_key = ''PEM-A'', pk_registered_at = 0\<rparr>]
      = (Inr (KeyDeleted ''userA''), [])
   \<and> \<not> key_matching_signed_delete demo_env
          [\<lparr>pk_user_id = ''userA'', pk_public_key = ''PEM-A'', pk_registered_at = 0\<rparr>]
          ''userA''
          (DeleteKey \<lparr>dr_user_id = ''userA'', dr_public_key = ''PEM-M'',
             dr_signature = ''PEM-M|userAPEM-M2025-11-02T21:45:00Z'',
             dr_expire_time = ''2025-11-02T21:45:00Z''\<rparr>)"
  by (simp add: registered_def delete_all_keys_def key_matching_signed_delete_def
        delete_key_def check_expire_time_def demo_env_def demo_fromisoformat_def replace_Z_def
        verify_signature_pkr_def demo_ecdsa_def)

section \<open>Resolving a key: the directory down, and no key on file\<close>

lemma get_public_key_failure_status:
  "get_public_key E user_id = Inl e \<Longrightarrow> status_code e = 500"
  by (auto simp: get_public_key_def split: sum.splits)

text \<open>
  Claim C2 asks that a registry outage and an identity with no registered key end in
  different error classes. \<open>get_public_key\<close> raises its 403 inside the \<open>try\<close> whose
  \<open>except Exception\<close> turns every exception into a 500, so both end as status 500:
  for \<open>ghost\<close>, whom the registry answers with 404, and for the same identity with the
  registry unreachable.
\<close>

theorem get_public_key_unregistered_is_500:
  "get_public_key demo_env ''ghost''
     = Inl (HTTPException 500 (Fmt ''Failed to fetch public key: ''
              (HTTPException 403 (Txt ''Public key not found.''))))
   \<and> get_public_key demo_env_down ''ghost''
     = Inl (HTTPException 500 (Fmt ''Failed to fetch public key: ''
              (OtherException ''ConnectionError'')))
   \<and> map_sum status_code id (get_public_key demo_env ''ghost'')
     = map_sum status_code id (get_public_key demo_env_down ''ghost'')"
  by (simp add: get_public_key_def get_public_key_try_def demo_env_def demo_env_down_def
        demo_requests_get_def PUBLIC_KEY_REGISTRY_URL_def)

section \<open>Granting access on a resource that is not on file\<close>

lemma get_admin_id_absent:
  "find (\<lambda>r. lc_data_id r = data_id) (catalog db) = None \<Longrightarrow>
     \<exists>d d'. get_admin_id_by_data_id db data_id
        = Inl (HTTPException 500 (Fmt d (HTTPException 404 d')))"
  by (simp add: get_admin_id_by_data_id_def get_admin_id_by_data_id_try_def)

lemma add_authz_absent_resource:
  "find (\<lambda>r. lc_data_id r = az_data_id item) (catalog db) = None \<Longrightarrow>
   check_expire_time E now (az_expire_time item) = Inr ok \<Longrightarrow>
     \<exists>d d'. add_authz E now db item = (Inl (HTTPException 500 (Fmt d (HTTPException 404 d'))), db)"
  by (simp add: add_authz_def get_admin_id_by_data_id_def get_admin_id_by_data_id_try_def)

text \<open>
  Claim C3 asks for a not-found failure when \<open>add_authz\<close> names a \<open>data_id\<close> with no
  catalog row. \<open>get_admin_id_by_data_id\<close> raises its 404 inside the \<open>try\<close> whose
  \<open>except Exception\<close> re-raises it as a 500, before \<open>add_authz\<close> reaches its own
  404 check: a request with a live \<open>expire_time\<close> on an empty catalog is answered 500.
\<close>

theorem add_authz_absent_resource_is_500:
  "add_authz demo_env 1762119000 \<lparr>catalog = [], authz = []\<rparr>
     \<lparr>az_data_id = ''sensor001'', az_access_grantee_id = ''userA'',
       az_expire_at = ''2025-11-03T12:00:00Z'', az_expire_time = ''2025-11-02T21:45:00Z'',
       az_signature = ''PEM-A|sensor001userA2025-11-03T12:00:00Z2025-11-02T21:45:00Z''\<rparr>
   = (Inl (HTTPException 500
        (Fmt (''Failed to retrieve admin_id for DataID '' @ [CHR 0x27] @ ''sensor001'' @ [CHR 0x27] @ '': '')
           (HTTPException 404
              (Txt (''DataID '' @ [CHR 0x27] @ ''sensor001'' @ [CHR 0x27] @ '' not found in catalog.''))))),
      \<lparr>catalog = [], authz = []\<rparr>)"
  by (simp add: add_authz_def get_admin_id_by_data_id_def get_admin_id_by_data_id_try_def
        check_expire_time_def demo_env_def demo_fromisoformat_def replace_Z_def)

section \<open>Failures of signature verification\<close>




section \<open>Expiry of a signature\<close>















section \<open>Requests from an identity that is not the owner\<close>

text \<open>
  Claim C6, as the code has it. \<open>delete_entry\<close> fetches the claimed identity's key,
  checks expiry, verifies the signature, and only then compares the stored owner: a
  request that passes those three steps from an identity other than the owner fails
  with 403 \<open>User not authorized.\<close> and the table is unchanged. \<open>get_data\<close> compares
  the stored administrator first, so there the 403 needs no other condition.
\<close>

theorem non_owner_forbidden:
  "(get_public_key E (cd_user_id req) = Inr k \<and>
    check_expire_time E now (cd_expire_time req) = Inr True \<and>
    verify_signature E k (data_id @ cd_user_id req @ cd_expire_time req) (cd_signature req)
      = Inr True \<and>
    find (\<lambda>r. fc_data_id r = data_id) fdb = Some entry \<and>
    fc_user_id entry \<noteq> cd_user_id req
    \<longrightarrow> delete_entry E now fdb data_id req
          = (Inl (HTTPException 403 (Txt ''User not authorized.'')), fdb))
   \<and> (find (\<lambda>r. lc_data_id r = data_id') (catalog db) = Some lentry \<and>
      sg_admin_id greq \<noteq> lc_admin_id lentry
    \<longrightarrow> get_data E now db data_id' greq
          = (Inl (HTTPException 403 (Txt ''User not authorized.'')), db))"
  by (simp add: delete_entry_def get_data_def)

text \<open>The theorem at requests that \<open>bob\<close> signs with his own registered key for a
  record of \<open>alice\<close>.\<close>

theorem non_owner_forbidden_witness:
  "delete_entry demo_env 1762119000
       [\<lparr>fc_data_id = ''sensor001'', fc_user_id = ''alice'', fc_description = ''Temperature'',
          fc_endpoint = ''http://edge.local/sensor001'', fc_created_at = 0\<rparr>]
       ''sensor001''
       \<lparr>cd_user_id = ''bob'', cd_signature = ''PEM-B|sensor001bob2025-11-02T21:45:00Z'',
         cd_expire_time = ''2025-11-02T21:45:00Z''\<rparr>
     = (Inl (HTTPException 403 (Txt ''User not authorized.'')),
        [\<lparr>fc_data_id = ''sensor001'', fc_user_id = ''alice'', fc_description = ''Temperature'',
          fc_endpoint = ''http://edge.local/sensor001'', fc_created_at = 0\<rparr>])
   \<and> get_data demo_env 1762119000
       \<lparr>catalog = [\<lparr>lc_data_id = ''sensor001'', lc_description = Some ''Temperature'',
          lc_admin_id = ''alice'', lc_endpoint = ''http://edge.local/sensor001'',
          lc_created_at = 0\<rparr>], authz = []\<rparr>
       ''sensor001''
       \<lparr>sg_admin_id = ''bob'', sg_expire_time = ''2025-11-02T21:45:00Z'',
         sg_signature = ''PEM-B|2025-11-02T21:45:00Z''\<rparr>
     = (Inl (HTTPException 403 (Txt ''User not authorized.'')),
        \<lparr>catalog = [\<lparr>lc_data_id = ''sensor001'', lc_description = Some ''Temperature'',
          lc_admin_id = ''alice'', lc_endpoint = ''http://edge.local/sensor001'',
          lc_created_at = 0\<rparr>], authz = []\<rparr>)"
proof -
  let ?fentry = "\<lparr>fc_data_id = ''sensor001'', fc_user_id = ''alice'', fc_description = ''Temperature'',
          fc_endpoint = ''http://edge.local/sensor001'', fc_created_at = 0\<rparr>"
  let ?lentry = "\<lparr>lc_data_id = ''sensor001'', lc_description = Some ''Temperature'',
          lc_admin_id = ''alice'', lc_endpoint = ''http://edge.local/sensor001'',
          lc_created_at = 0\<rparr>"
  let ?req = "\<lparr>cd_user_id = ''bob'', cd_signature = ''PEM-B|sensor001bob2025-11-02T21:45:00Z'',
         cd_expire_time = ''2025-11-02T21:45:00Z''\<rparr>"
  let ?greq = "\<lparr>sg_admin_id = ''bob'', sg_expire_time = ''2025-11-02T21:45:00Z'',
         sg_signature = ''PEM-B|2025-11-02T21:45:00Z''\<rparr>"
  have k: "get_public_key demo_env (cd_user_id ?req) = Inr (Some ''PEM-B'')"
    by (simp add: get_public_key_def get_public_key_try_def demo_env_def demo_requests_get_def
          PUBLIC_KEY_REGISTRY_URL_def)
  have c: "check_expire_time demo_env 1762119000 (cd_expire_time ?req) = Inr True"
    by (simp add: check_expire_time_def demo_env_def demo_fromisoformat_def replace_Z_def)
  have v: "verify_signature demo_env (Some ''PEM-B'')
             (''sensor001'' @ cd_user_id ?req @ cd_expire_time ?req) (cd_signature ?req) = Inr True"
    by (simp add: verify_signature_def demo_env_def demo_ecdsa_def)
  have f: "find (\<lambda>r. fc_data_id r = ''sensor001'') [?fentry] = Some ?fentry" by simp
  have n: "fc_user_id ?fentry \<noteq> cd_user_id ?req" by simp
  have f': "find (\<lambda>r. lc_data_id r = ''sensor001'') (catalog \<lparr>catalog = [?lentry], authz = []\<rparr>)
              = Some ?lentry" by simp
  have n': "sg_admin_id ?greq \<noteq> lc_admin_id ?lentry" by simp
  from non_owner_forbidden [where E = demo_env and now = 1762119000 and req = ?req
      and k = "Some ''PEM-B''" and data_id = "''sensor001''" and fdb = "[?fentry]"
      and entry = ?fentry and data_id' = "''sensor001''"
      and db = "\<lparr>catalog = [?lentry], authz = []\<rparr>" and lentry = ?lentry and greq = ?greq]
    k c v f n f' n'
  show ?thesis by blast
qed

text \<open>
  The claim as written fails for \<open>delete_entry\<close>: the signature of \<open>bob\<close> verifies
  against his registered key and the record belongs to \<open>alice\<close>, but the \<open>expire_time\<close>
  has passed, and the request fails with 400 \<open>Signature expired\<close>, not with 403.
\<close>

theorem expired_non_owner_counterexample:
  "get_public_key demo_env ''bob'' = Inr (Some ''PEM-B'')
   \<and> verify_signature demo_env (Some ''PEM-B'') ''sensor001bob2020-01-01T00:00:00Z''
        ''PEM-B|sensor001bob2020-01-01T00:00:00Z'' = Inr True
   \<and> get_by_dataid
        [\<lparr>fc_data_id = ''sensor001'', fc_user_id = ''alice'', fc_description = ''Temperature'',
           fc_endpoint = ''http://edge.local/sensor001'', fc_created_at = 0\<rparr>] ''sensor001''
      = (Inr (EntryInfo \<lparr>fc_data_id = ''sensor001'', fc_user_id = ''alice'',
           fc_description = ''Temperature'', fc_endpoint = ''http://edge.local/sensor001'',
           fc_created_at = 0\<rparr>),
         [\<lparr>fc_data_id = ''sensor001'', fc_user_id = ''alice'', fc_description = ''Temperature'',
           fc_endpoint = ''http://edge.local/sensor001'', fc_created_at = 0\<rparr>])
   \<and> delete_entry demo_env 1762119000
        [\<lparr>fc_data_id = ''sensor001'', fc_user_id = ''alice'', fc_description = ''Temperature'',
           fc_endpoint = ''http://edge.local/sensor001'', fc_created_at = 0\<rparr>]
        ''sensor001''
        \<lparr>cd_user_id = ''bob'', cd_signature = ''PEM-B|sensor001bob2020-01-01T00:00:00Z'',
          cd_expire_time = ''2020-01-01T00:00:00Z''\<rparr>
      = (Inl (HTTPException 400 (Txt ''Signature expired'')),
         [\<lparr>fc_data_id = ''sensor001'', fc_user_id = ''alice'', fc_description = ''Temperature'',
           fc_endpoint = ''http://edge.local/sensor001'', fc_created_at = 0\<rparr>])"
  by (simp add: get_public_key_def get_public_key_try_def demo_env_def demo_requests_get_def
        PUBLIC_KEY_REGISTRY_URL_def verify_signature_def demo_ecdsa_def get_by_dataid_def
        delete_entry_def check_expire_time_def demo_fromisoformat_def replace_Z_def)

section \<open>A request without a description\<close>

text \<open>With \<open>description\<close> absent, \<open>add_data\<close> and \<open>delete_data\<close> end in the error of
  an earlier check or in the \<open>TypeError\<close> of the concatenation; they never succeed.\<close>

lemma add_data_no_description:
  "di_description item = None \<Longrightarrow>
     add_data E now db item =
       (case check_expire_time E now (di_expire_time item) of
          Inl e \<Rightarrow> (Inl e, db)
        | Inr ok \<Rightarrow>
            (case get_public_key E (di_admin_id item) of
               Inl e \<Rightarrow> (Inl e, db)
             | Inr key \<Rightarrow> (Inl TypeError, db)))"
  by (simp add: add_data_def data_msg_def split: sum.splits)

lemma delete_data_no_description:
  "sd_description req = None \<Longrightarrow>
   find (\<lambda>r. lc_data_id r = data_id) (catalog db) = Some entry \<Longrightarrow>
   sd_admin_id req = lc_admin_id entry \<Longrightarrow> sd_endpoint req = lc_endpoint entry \<Longrightarrow>
   or_empty (lc_description entry) = [] \<Longrightarrow>
     delete_data E now db data_id req =
       (case check_expire_time E now (sd_expire_time req) of
          Inl e \<Rightarrow> (Inl e, db)
        | Inr ok \<Rightarrow>
            (case get_public_key E (sd_admin_id req) of
               Inl e \<Rightarrow> (Inl e, db)
             | Inr key \<Rightarrow> (Inl TypeError, db)))"
  by (frule find_Some_key)
     (simp add: delete_data_def data_msg_def or_empty_def split: sum.splits)

lemma add_data_no_description_fails:
  "di_description item = None \<Longrightarrow>
     is_error (fst (add_data E now db item)) \<and> snd (add_data E now db item) = db"
  by (simp add: add_data_no_description is_error_def split: sum.splits)

lemma delete_data_no_description_fails:
  "sd_description req = None \<Longrightarrow>
     is_error (fst (delete_data E now db data_id req)) \<and> snd (delete_data E now db data_id req) = db"
  by (simp add: delete_data_def data_msg_def is_error_def split: sum.splits option.splits)

text \<open>
  Claim C9. \<open>DataItem\<close> and \<open>SignedDeleteCatalogRequest\<close> admit a request with no
  \<open>description\<close>, and \<open>delete_data\<close> even matches an absent description against a
  stored empty one. The message is built as \<open>data_id + description + ...\<close>: once the
  request has passed the expiry check and the key has been fetched, \<open>str + None\<close>
  raises \<open>TypeError\<close>, which no handler catches, so the answer is the framework's
  500 and not an \<open>HTTPException\<close> of the service. Such a request never succeeds and
  never changes the store.
\<close>

theorem no_description_type_error:
  "(di_description item = None \<and>
    check_expire_time E now (di_expire_time item) = Inr True \<and>
    get_public_key E (di_admin_id item) = Inr key
    \<longrightarrow> add_data E now db item = (Inl TypeError, db))
   \<and> (sd_description req = None \<and>
      find (\<lambda>r. lc_data_id r = data_id) (catalog db) = Some entry \<and>
      sd_admin_id req = lc_admin_id entry \<and> sd_endpoint req = lc_endpoint entry \<and>
      or_empty (lc_description entry) = [] \<and>
      check_expire_time E now (sd_expire_time req) = Inr True \<and>
      get_public_key E (sd_admin_id req) = Inr key'
      \<longrightarrow> delete_data E now db data_id req = (Inl TypeError, db))
   \<and> (di_description item = None
      \<longrightarrow> is_error (fst (add_data E now db item)) \<and> snd (add_data E now db item) = db)
   \<and> (sd_description req = None
      \<longrightarrow> is_error (fst (delete_data E now db data_id req))
          \<and> snd (delete_data E now db data_id req) = db)"
proof (intro conjI impI)
  assume "di_description item = None \<and>
    check_expire_time E now (di_expire_time item) = Inr True \<and>
    get_public_key E (di_admin_id item) = Inr key"
  then show "add_data E now db item = (Inl TypeError, db)"
    by (simp add: add_data_no_description)
next
  assume "sd_description req = None \<and>
      find (\<lambda>r. lc_data_id r = data_id) (catalog db) = Some entry \<and>
      sd_admin_id req = lc_admin_id entry \<and> sd_endpoint req = lc_endpoint entry \<and>
      or_empty (lc_description entry) = [] \<and>
      check_expire_time E now (sd_expire_time req) = Inr True \<and>
      get_public_key E (sd_admin_id req) = Inr key'"
  then show "delete_data E now db data_id req = (Inl TypeError, db)"
    by (clarsimp simp: delete_data_no_description)
qed (simp_all add: add_data_no_description_fails delete_data_no_description_fails)

text \<open>The theorem at a publish request and at a delete request without description,
  the latter for a resource stored with the empty description.\<close>

theorem no_description_type_error_witness:
  "add_data demo_env 1762119000 \<lparr>catalog = [], authz = []\<rparr>
     \<lparr>di_data_id = ''sensor001'', di_description = None, di_admin_id = ''alice'',
       di_endpoint = ''http://edge.local/sensor001'', di_expire_time = ''2025-11-02T21:45:00Z'',
       di_signature = ''PEM-A|sensor001alicehttp://edge.local/sensor0012025-11-02T21:45:00Z''\<rparr>
   = (Inl TypeError, \<lparr>catalog = [], authz = []\<rparr>)
   \<and> delete_data demo_env 1762119000
       \<lparr>catalog = [\<lparr>lc_data_id = ''sensor001'', lc_description = Some [],
          lc_admin_id = ''alice'', lc_endpoint = ''http://edge.local/sensor001'',
          lc_created_at = 0\<rparr>], authz = []\<rparr>
       ''sensor001''
       \<lparr>sd_description = None, sd_admin_id = ''alice'',
         sd_endpoint = ''http://edge.local/sensor001'', sd_expire_time = ''2025-11-02T21:45:00Z'',
         sd_signature = ''PEM-A|sensor001alicehttp://edge.local/sensor0012025-11-02T21:45:00Z''\<rparr>
   = (Inl TypeError,
       \<lparr>catalog = [\<lparr>lc_data_id = ''sensor001'', lc_description = Some [],
          lc_admin_id = ''alice'', lc_endpoint = ''http://edge.local/sensor001'',
          lc_created_at = 0\<rparr>], authz = []\<rparr>)
   \<and> status_code TypeError = 500"
proof -
  let ?item = "\<lparr>di_data_id = ''sensor001'', di_description = None, di_admin_id = ''alice'',
       di_endpoint = ''http://edge.local/sensor001'', di_expire_time = ''2025-11-02T21:45:00Z'',
       di_signature = ''PEM-A|sensor001alicehttp://edge.local/sensor0012025-11-02T21:45:00Z''\<rparr>"
  let ?entry = "\<lparr>lc_data_id = ''sensor001'', lc_description = Some [],
          lc_admin_id = ''alice'', lc_endpoint = ''http://edge.local/sensor001'',
          lc_created_at = 0\<rparr>"
  let ?req = "\<lparr>sd_description = None, sd_admin_id = ''alice'',
         sd_endpoint = ''http://edge.local/sensor001'', sd_expire_time = ''2025-11-02T21:45:00Z'',
         sd_signature = ''PEM-A|sensor001alicehttp://edge.local/sensor0012025-11-02T21:45:00Z''\<rparr>"
  have c: "check_expire_time demo_env 1762119000 ''2025-11-02T21:45:00Z'' = Inr True"
    by (simp add: check_expire_time_def demo_env_def demo_fromisoformat_def replace_Z_def)
  have k: "get_public_key demo_env ''alice'' = Inr (Some ''PEM-A'')"
    by (simp add: get_public_key_def get_public_key_try_def demo_env_def demo_requests_get_def
          PUBLIC_KEY_REGISTRY_URL_def)
  have 1: "add_data demo_env 1762119000 \<lparr>catalog = [], authz = []\<rparr> ?item
             = (Inl TypeError, \<lparr>catalog = [], authz = []\<rparr>)"
    using no_description_type_error [where E = demo_env and now = 1762119000 and item = ?item
        and key = "Some ''PEM-A''" and db = "\<lparr>catalog = [], authz = []\<rparr>"] c k
    by simp
  have 2: "delete_data demo_env 1762119000 \<lparr>catalog = [?entry], authz = []\<rparr> ''sensor001'' ?req
             = (Inl TypeError, \<lparr>catalog = [?entry], authz = []\<rparr>)"
    using no_description_type_error [where E = demo_env and now = 1762119000 and req = ?req
        and key' = "Some ''PEM-A''" and db = "\<lparr>catalog = [?entry], authz = []\<rparr>"
        and entry = ?entry and data_id = "''sensor001''"] c k
    by (simp add: or_empty_def)
  from 1 2 show ?thesis by simp
qed

section \<open>What each handler of the local catalog does to the store\<close>

lemma has_grant_iff:
  "has_grant d g db = (\<exists>a \<in> set (authz db). la_data_id a = d \<and> la_access_grantee_id a = g)"
  by (auto simp: has_grant_def find_None_iff)

lemma no_orphans_iff:
  "no_orphans db = (\<forall>a \<in> set (authz db). \<exists>r \<in> set (catalog db). lc_data_id r = la_data_id a)"
  by (auto simp: no_orphans_def list_all_iff find_None_iff)

lemma on_file_iff:
  "(find (\<lambda>r. lc_data_id r = d) (catalog db) \<noteq> None) = (\<exists>r \<in> set (catalog db). lc_data_id r = d)"
  by (auto simp: find_None_iff)

lemma add_data_effect:
  "authz (snd (add_data E now db item)) = authz db \<and>
   set (catalog db) \<subseteq> set (catalog (snd (add_data E now db item)))"
  by (auto simp: add_data_def split: sum.splits)

lemma add_authz_failure: "add_authz E now db item = (Inl e, db') \<Longrightarrow> db' = db"
  by (auto simp: add_authz_def Let_def split: sum.splits option.splits if_splits)

lemma add_authz_success:
  "add_authz E now db item = (Inr r, db') \<Longrightarrow>
     find (\<lambda>r. lc_data_id r = az_data_id item) (catalog db) \<noteq> None \<and>
     \<not> has_grant (az_data_id item) (az_access_grantee_id item) db \<and>
     catalog db' = catalog db \<and>
     authz db' = authz db @
       [\<lparr>la_data_id = az_data_id item, la_access_grantee_id = az_access_grantee_id item,
         la_expire_at = to_timestamptz (the (fromisoformat E (replace_Z (az_expire_at item)))),
         la_created_at = now\<rparr>]"
  by (auto simp: add_authz_def Let_def has_grant_def split: sum.splits option.splits if_splits)

lemma get_data_effect: "snd (get_data E now db data_id req) = db"
  by (auto simp: get_data_def split: sum.splits option.splits)

lemma get_authz_effect: "snd (get_authz E now now' db data_id req) = db"
  by (auto simp: get_authz_def Let_def split: sum.splits option.splits)

lemma delete_data_failure: "delete_data E now db data_id req = (Inl e, db') \<Longrightarrow> db' = db"
  by (auto simp: delete_data_def split: sum.splits option.splits if_splits)

lemma delete_data_success:
  "delete_data E now db data_id req = (Inr r, db') \<Longrightarrow>
     db' = \<lparr>catalog = filter (\<lambda>r. lc_data_id r \<noteq> data_id) (catalog db),
           authz = filter (\<lambda>a. la_data_id a \<noteq> data_id) (authz db)\<rparr>"
  by (auto simp: delete_data_def split: sum.splits option.splits if_splits)

lemma delete_authz_effect:
  "snd (delete_authz E now db data_id g req) = db \<or>
   snd (delete_authz E now db data_id g req)
     = db\<lparr>authz := filter (\<lambda>a. \<not> (la_data_id a = data_id \<and> la_access_grantee_id a = g)) (authz db)\<rparr>"
  by (auto simp: delete_authz_def Let_def find_Some_iff split: sum.splits option.splits)

section \<open>Every grant has its resource\<close>

lemma no_orphans_step: "no_orphans db \<Longrightarrow> no_orphans (snd (lca_step E now now' op db))"
proof (cases op)
  case (AddData item)
  assume "no_orphans db"
  with add_data_effect [of E now db item] AddData show ?thesis
    by (auto simp: no_orphans_iff)
next
  case (AddAuthz item)
  assume inv: "no_orphans db"
  show ?thesis
  proof (cases "add_authz E now db item")
    case (Pair res db')
    show ?thesis
    proof (cases res)
      case (Inl e)
      with Pair AddAuthz inv add_authz_failure show ?thesis by fastforce
    next
      case (Inr r)
      with Pair add_authz_success [of E now db item r db', unfolded on_file_iff] inv AddAuthz
      show ?thesis
        by (auto simp: no_orphans_iff)
    qed
  qed
next
  case (GetData d req)
  assume "no_orphans db"
  with GetData show ?thesis by (simp add: get_data_effect)
next
  case (GetAuthz d req)
  assume "no_orphans db"
  with GetAuthz show ?thesis by (simp add: get_authz_effect)
next
  case (DeleteData d req)
  assume inv: "no_orphans db"
  show ?thesis
  proof (cases "delete_data E now db d req")
    case (Pair res db')
    show ?thesis
    proof (cases res)
      case (Inl e)
      with Pair DeleteData inv delete_data_failure show ?thesis by fastforce
    next
      case (Inr r)
      with Pair delete_data_success [of E now db d req r db'] inv DeleteData show ?thesis
        by (fastforce simp: no_orphans_iff)
    qed
  qed
next
  case (DeleteAuthz d g req)
  assume "no_orphans db"
  with delete_authz_effect [of E now db d g req] DeleteAuthz show ?thesis
    by (auto simp: no_orphans_iff)
next
  case DebugAllOp
  assume "no_orphans db"
  with DebugAllOp show ?thesis by (simp add: debug_all_def)
next
  case ResetAll
  then show ?thesis by (simp add: reset_all_def no_orphans_iff)
qed

lemma no_orphans_run: "no_orphans db \<Longrightarrow> no_orphans (lca_run evs db)"
proof (induction evs arbitrary: db)
  case Nil
  then show ?case by simp
next
  case (Cons ev evs)
  obtain E now now' op where ev: "ev = (E, now, now', op)" by (cases ev) auto
  from Cons.prems have "no_orphans (snd (lca_step E now now' op db))" by (rule no_orphans_step)
  then have "no_orphans (lca_run evs (snd (lca_step E now now' op db)))" by (rule Cons.IH)
  with ev show ?case by simp
qed

text \<open>
  Claim C10. No request leaves a grant whose \<open>data_id\<close> has no catalog row: every
  handler keeps the property, so it holds after any run of requests from the empty
  store, whatever the environment and the clock of each request. \<open>add_authz\<close> adds a
  grant only when the resource is on file, and a successful \<open>delete_data\<close> removes the
  resource together with all its grants.
\<close>

theorem no_orphaned_grant:
  "no_orphans (lca_run evs \<lparr>catalog = [], authz = []\<rparr>)
   \<and> (no_orphans db \<longrightarrow> no_orphans (snd (lca_step E now now' op db)))
   \<and> (add_authz E now db item = (Inr r, db') \<longrightarrow>
        find (\<lambda>r. lc_data_id r = az_data_id item) (catalog db) \<noteq> None)
   \<and> (delete_data E now db data_id req = (Inr r', db'') \<longrightarrow>
        find (\<lambda>r. lc_data_id r = data_id) (catalog db'') = None \<and> grants_of data_id db'' = [])"
proof (intro conjI impI)
  have "no_orphans \<lparr>catalog = [], authz = []\<rparr>" by (simp add: no_orphans_def)
  then show "no_orphans (lca_run evs \<lparr>catalog = [], authz = []\<rparr>)" by (rule no_orphans_run)
next
  assume "no_orphans db"
  then show "no_orphans (snd (lca_step E now now' op db))" by (rule no_orphans_step)
next
  assume "add_authz E now db item = (Inr r, db')"
  then show "find (\<lambda>r. lc_data_id r = az_data_id item) (catalog db) \<noteq> None"
    using add_authz_success by blast
next
  assume d: "delete_data E now db data_id req = (Inr r', db'')"
  from delete_data_success [OF d]
  show "find (\<lambda>r. lc_data_id r = data_id) (catalog db'') = None"
    by (simp add: find_None_iff)
  from delete_data_success [OF d]
  show "grants_of data_id db'' = []"
    by (simp add: grants_of_def filter_empty_conv)
qed


text \<open>The theorem at a run that publishes a resource and grants access on it, and
  at the deletion of that resource.\<close>

theorem no_orphaned_grant_witness:
  "lca_run
     [(demo_env, 1762119000, 1762119000,
       AddData \<lparr>di_data_id = ''sensor001'', di_description = Some ''Temperature'',
         di_admin_id = ''alice'', di_endpoint = ''http://edge.local/sensor001'',
         di_expire_time = ''2025-11-02T21:45:00Z'',
         di_signature = ''PEM-A|sensor001Temperaturealicehttp://edge.local/sensor0012025-11-02T21:45:00Z''\<rparr>),
      (demo_env, 1762119001, 1762119001,
       AddAuthz \<lparr>az_data_id = ''sensor001'', az_access_grantee_id = ''bob'',
         az_expire_at = ''2025-11-03T12:00:00Z'', az_expire_time = ''2025-11-02T21:45:00Z'',
         az_signature = ''PEM-A|sensor001bob2025-11-03T12:00:00Z2025-11-02T21:45:00Z''\<rparr>)]
     \<lparr>catalog = [], authz = []\<rparr>
   = \<lparr>catalog = [\<lparr>lc_data_id = ''sensor001'', lc_description = Some ''Temperature'',
         lc_admin_id = ''alice'', lc_endpoint = ''http://edge.local/sensor001'',
         lc_created_at = 1762119000\<rparr>],
      authz = [\<lparr>la_data_id = ''sensor001'', la_access_grantee_id = ''bob'',
         la_expire_at = 1762171200, la_created_at = 1762119001\<rparr>]\<rparr>
   \<and> no_orphans (lca_run
     [(demo_env, 1762119000, 1762119000,
       AddData \<lparr>di_data_id = ''sensor001'', di_description = Some ''Temperature'',
         di_admin_id = ''alice'', di_endpoint = ''http://edge.local/sensor001'',
         di_expire_time = ''2025-11-02T21:45:00Z'',
         di_signature = ''PEM-A|sensor001Temperaturealicehttp://edge.local/sensor0012025-11-02T21:45:00Z''\<rparr>),
      (demo_env, 1762119001, 1762119001,
       AddAuthz \<lparr>az_data_id = ''sensor001'', az_access_grantee_id = ''bob'',
         az_expire_at = ''2025-11-03T12:00:00Z'', az_expire_time = ''2025-11-02T21:45:00Z'',
         az_signature = ''PEM-A|sensor001bob2025-11-03T12:00:00Z2025-11-02T21:45:00Z''\<rparr>)]
     \<lparr>catalog = [], authz = []\<rparr>)
   \<and> no_orphans (snd (lca_step demo_env 1762119002 1762119002
       (DeleteData ''sensor001''
          \<lparr>sd_description = Some ''Temperature'', sd_admin_id = ''alice'',
            sd_endpoint = ''http://edge.local/sensor001'', sd_expire_time = ''2025-11-02T21:45:00Z'',
            sd_signature = ''PEM-A|sensor001Temperaturealicehttp://edge.local/sensor0012025-11-02T21:45:00Z''\<rparr>)
       \<lparr>catalog = [\<lparr>lc_data_id = ''sensor001'', lc_description = Some ''Temperature'',
         lc_admin_id = ''alice'', lc_endpoint = ''http://edge.local/sensor001'',
         lc_created_at = 1762119000\<rparr>],
        authz = [\<lparr>la_data_id = ''sensor001'', la_access_grantee_id = ''bob'',
         la_expire_at = 1762171200, la_created_at = 1762119001\<rparr>]\<rparr>))
   \<and> lca_step demo_env 1762119002 1762119002
       (DeleteData ''sensor001''
          \<lparr>sd_description = Some ''Temperature'', sd_admin_id = ''alice'',
            sd_endpoint = ''http://edge.local/sensor001'', sd_expire_time = ''2025-11-02T21:45:00Z'',
            sd_signature = ''PEM-A|sensor001Temperaturealicehttp://edge.local/sensor0012025-11-02T21:45:00Z''\<rparr>)
       \<lparr>catalog = [\<lparr>lc_data_id = ''sensor001'', lc_description = Some ''Temperature'',
         lc_admin_id = ''alice'', lc_endpoint = ''http://edge.local/sensor001'',
         lc_created_at = 1762119000\<rparr>],
        authz = [\<lparr>la_data_id = ''sensor001'', la_access_grantee_id = ''bob'',
         la_expire_at = 1762171200, la_created_at = 1762119001\<rparr>]\<rparr>
     = (Inr (DataDeleted ''sensor001''), \<lparr>catalog = [], authz = []\<rparr>)"
proof -
  let ?add = "AddData \<lparr>di_data_id = ''sensor001'', di_description = Some ''Temperature'',
         di_admin_id = ''alice'', di_endpoint = ''http://edge.local/sensor001'',
         di_expire_time = ''2025-11-02T21:45:00Z'',
         di_signature = ''PEM-A|sensor001Temperaturealicehttp://edge.local/sensor0012025-11-02T21:45:00Z''\<rparr>"
  let ?grant = "AddAuthz \<lparr>az_data_id = ''sensor001'', az_access_grantee_id = ''bob'',
         az_expire_at = ''2025-11-03T12:00:00Z'', az_expire_time = ''2025-11-02T21:45:00Z'',
         az_signature = ''PEM-A|sensor001bob2025-11-03T12:00:00Z2025-11-02T21:45:00Z''\<rparr>"
  let ?del = "DeleteData ''sensor001''
          \<lparr>sd_description = Some ''Temperature'', sd_admin_id = ''alice'',
            sd_endpoint = ''http://edge.local/sensor001'', sd_expire_time = ''2025-11-02T21:45:00Z'',
            sd_signature = ''PEM-A|sensor001Temperaturealicehttp://edge.local/sensor0012025-11-02T21:45:00Z''\<rparr>"
  let ?evs = "[(demo_env, 1762119000, 1762119000, ?add), (demo_env, 1762119001, 1762119001, ?grant)]"
  let ?db = "\<lparr>catalog = [\<lparr>lc_data_id = ''sensor001'', lc_description = Some ''Temperature'',
         lc_admin_id = ''alice'', lc_endpoint = ''http://edge.local/sensor001'',
         lc_created_at = 1762119000\<rparr>],
        authz = [\<lparr>la_data_id = ''sensor001'', la_access_grantee_id = ''bob'',
         la_expire_at = 1762171200, la_created_at = 1762119001\<rparr>]\<rparr>"
  have c: "\<And>n. n \<le> 1762119900 \<Longrightarrow> check_expire_time demo_env n ''2025-11-02T21:45:00Z'' = Inr True"
    by (simp add: check_expire_time_def demo_env_def demo_fromisoformat_def replace_Z_def)
  have k: "get_public_key demo_env ''alice'' = Inr (Some ''PEM-A'')"
    by (simp add: get_public_key_def get_public_key_try_def demo_env_def demo_requests_get_def
          PUBLIC_KEY_REGISTRY_URL_def)
  have p: "fromisoformat demo_env (replace_Z ''2025-11-03T12:00:00Z'') = Some (Aware 1762171200)"
    by (simp add: demo_env_def demo_fromisoformat_def replace_Z_def)
  have v: "\<And>m. verify_signature demo_env (Some ''PEM-A'') m (''PEM-A|'' @ m) = Inr True"
    by (simp add: verify_signature_def demo_env_def demo_ecdsa_def)
  have run: "lca_run ?evs \<lparr>catalog = [], authz = []\<rparr> = ?db"
    using v [of "''sensor001Temperaturealicehttp://edge.local/sensor0012025-11-02T21:45:00Z''"]
      v [of "''sensor001bob2025-11-03T12:00:00Z2025-11-02T21:45:00Z''"]
    by (simp add: add_data_def add_authz_def c k p data_msg_def to_timestamptz_def
          get_admin_id_by_data_id_def get_admin_id_by_data_id_try_def)
  have del: "lca_step demo_env 1762119002 1762119002 ?del ?db
               = (Inr (DataDeleted ''sensor001''), \<lparr>catalog = [], authz = []\<rparr>)"
    using v [of "''sensor001Temperaturealicehttp://edge.local/sensor0012025-11-02T21:45:00Z''"]
    by (simp add: delete_data_def c k data_msg_def or_empty_def)
  note t = no_orphaned_grant [where evs = ?evs and db = ?db and E = demo_env
      and now = 1762119002 and now' = 1762119002 and op = ?del]
  from t have 1: "no_orphans (lca_run ?evs \<lparr>catalog = [], authz = []\<rparr>)" by blast
  with t run have 2: "no_orphans (snd (lca_step demo_env 1762119002 1762119002 ?del ?db))"
    by simp
  from run 1 2 del show ?thesis by simp
qed

section \<open>A second grant for the same pair\<close>

lemma has_grant_step:
  assumes "has_grant d g db" "\<not> has_grant d g (snd (lca_step E now now' op db))"
  shows "revokes d g op"
proof (cases op)
  case (AddData item)
  with assms add_data_effect [of E now db item] show ?thesis by (simp add: has_grant_iff)
next
  case (AddAuthz item)
  show ?thesis
  proof (cases "add_authz E now db item")
    case (Pair res db')
    show ?thesis
    proof (cases res)
      case (Inl e)
      with Pair AddAuthz assms add_authz_failure show ?thesis by fastforce
    next
      case (Inr r)
      with Pair add_authz_success [of E now db item r db'] assms AddAuthz show ?thesis
        by (auto simp: has_grant_iff)
    qed
  qed
next
  case (GetData d' req)
  with assms show ?thesis by (simp add: get_data_effect)
next
  case (GetAuthz d' req)
  with assms show ?thesis by (simp add: get_authz_effect)
next
  case (DeleteData d' req)
  show ?thesis
  proof (cases "delete_data E now db d' req")
    case (Pair res db')
    show ?thesis
    proof (cases res)
      case (Inl e)
      with Pair DeleteData assms delete_data_failure show ?thesis by fastforce
    next
      case (Inr r)
      with Pair delete_data_success [of E now db d' req r db'] assms DeleteData show ?thesis
        by (auto simp: has_grant_iff revokes_def)
    qed
  qed
next
  case (DeleteAuthz d' g' req)
  with assms delete_authz_effect [of E now db d' g' req] show ?thesis
    by (auto simp: has_grant_iff revokes_def)
next
  case DebugAllOp
  with assms show ?thesis by (simp add: debug_all_def)
next
  case ResetAll
  then show ?thesis by (simp add: revokes_def)
qed

lemma add_authz_duplicate:
  assumes "has_grant (az_data_id item) (az_access_grantee_id item) db"
    and "check_expire_time E now (az_expire_time item) = Inr True"
    and "get_admin_id_by_data_id db (az_data_id item) = Inr admin_id"
    and "get_public_key E admin_id = Inr key"
    and "verify_signature E key
           (az_data_id item @ az_access_grantee_id item @ az_expire_at item @ az_expire_time item)
           (az_signature item) = Inr True"
  shows "add_authz E now db item = (Inl (HTTPException 400 (Txt ''AuthZ already exists.'')), db)"
proof -
  from assms(3) have "find (\<lambda>r. lc_data_id r = az_data_id item) (catalog db) \<noteq> None"
    by (auto simp: get_admin_id_by_data_id_def get_admin_id_by_data_id_try_def
          split: option.splits)
  with assms show ?thesis
    by (simp add: add_authz_def has_grant_def)
qed

lemma add_authz_never_over_grant:
  assumes "has_grant (az_data_id item) (az_access_grantee_id item) db"
  shows "is_error (fst (add_authz E now db item)) \<and> snd (add_authz E now db item) = db"
proof (cases "add_authz E now db item")
  case (Pair res db')
  show ?thesis
  proof (cases res)
    case (Inl e)
    with Pair add_authz_failure [of E now db item e db'] show ?thesis
      by (simp add: is_error_def)
  next
    case (Inr r)
    with Pair add_authz_success [of E now db item r db'] assms show ?thesis by simp
  qed
qed

text \<open>
  Claim C7. The duplicate check of \<open>add_authz\<close> looks for a row of the pair
  \<open>data_id\<close>, \<open>access_grantee_id\<close> and never reads its \<open>expire_at\<close>. While such a row
  is on file, be its deadline past or not, a request that passes the expiry check, the
  key lookup and the signature check is rejected with 400 \<open>AuthZ already exists.\<close>,
  and no \<open>add_authz\<close> for the pair succeeds or changes the store; a successful
  \<open>add_authz\<close> found no row of the pair. A row stays on file until a request deletes
  it: \<open>delete_authz\<close> for the pair, \<open>delete_data\<close> for the resource, or \<open>reset_all\<close>;
  the passing of time removes nothing.
\<close>

theorem duplicate_grant_rejected:
  "(has_grant (az_data_id item) (az_access_grantee_id item) db \<and>
    check_expire_time E now (az_expire_time item) = Inr True \<and>
    get_admin_id_by_data_id db (az_data_id item) = Inr admin_id \<and>
    get_public_key E admin_id = Inr key \<and>
    verify_signature E key
      (az_data_id item @ az_access_grantee_id item @ az_expire_at item @ az_expire_time item)
      (az_signature item) = Inr True
    \<longrightarrow> add_authz E now db item = (Inl (HTTPException 400 (Txt ''AuthZ already exists.'')), db))
   \<and> (has_grant (az_data_id item) (az_access_grantee_id item) db
      \<longrightarrow> is_error (fst (add_authz E now db item)) \<and> snd (add_authz E now db item) = db)
   \<and> (add_authz E now db item = (Inr r, db')
      \<longrightarrow> \<not> has_grant (az_data_id item) (az_access_grantee_id item) db)
   \<and> (has_grant d g db \<and> \<not> has_grant d g (snd (lca_step E now now' op db))
      \<longrightarrow> revokes d g op)"
proof (intro conjI impI)
  assume "has_grant (az_data_id item) (az_access_grantee_id item) db \<and>
    check_expire_time E now (az_expire_time item) = Inr True \<and>
    get_admin_id_by_data_id db (az_data_id item) = Inr admin_id \<and>
    get_public_key E admin_id = Inr key \<and>
    verify_signature E key
      (az_data_id item @ az_access_grantee_id item @ az_expire_at item @ az_expire_time item)
      (az_signature item) = Inr True"
  then show "add_authz E now db item = (Inl (HTTPException 400 (Txt ''AuthZ already exists.'')), db)"
    using add_authz_duplicate by blast
next
  assume "has_grant (az_data_id item) (az_access_grantee_id item) db"
  then show "is_error (fst (add_authz E now db item))" "snd (add_authz E now db item) = db"
    using add_authz_never_over_grant by blast+
next
  assume "add_authz E now db item = (Inr r, db')"
  then show "\<not> has_grant (az_data_id item) (az_access_grantee_id item) db"
    using add_authz_success by blast
next
  assume "has_grant d g db \<and> \<not> has_grant d g (snd (lca_step E now now' op db))"
  then show "revokes d g op" using has_grant_step by blast
qed


text \<open>The theorem at a grant whose deadline passed in 2020: \<open>get_authz\<close> no longer
  lists it, a new grant for the pair is rejected, and after \<open>delete_authz\<close> the same
  request succeeds.\<close>

theorem duplicate_grant_rejected_witness:
  "get_authz demo_env 1762119000 1762119000
     \<lparr>catalog = [\<lparr>lc_data_id = ''sensor001'', lc_description = Some ''Temperature'',
         lc_admin_id = ''alice'', lc_endpoint = ''http://edge.local/sensor001'',
         lc_created_at = 0\<rparr>],
      authz = [\<lparr>la_data_id = ''sensor001'', la_access_grantee_id = ''bob'',
         la_expire_at = 1577836800, la_created_at = 0\<rparr>]\<rparr>
     ''sensor001''
     \<lparr>sg_admin_id = ''alice'', sg_expire_time = ''2025-11-02T21:45:00Z'',
       sg_signature = ''PEM-A|2025-11-02T21:45:00Z''\<rparr>
   = (Inr (AuthZInfo ''sensor001'' 0 []),
      \<lparr>catalog = [\<lparr>lc_data_id = ''sensor001'', lc_description = Some ''Temperature'',
         lc_admin_id = ''alice'', lc_endpoint = ''http://edge.local/sensor001'',
         lc_created_at = 0\<rparr>],
      authz = [\<lparr>la_data_id = ''sensor001'', la_access_grantee_id = ''bob'',
         la_expire_at = 1577836800, la_created_at = 0\<rparr>]\<rparr>)
   \<and> add_authz demo_env 1762119000
     \<lparr>catalog = [\<lparr>lc_data_id = ''sensor001'', lc_description = Some ''Temperature'',
         lc_admin_id = ''alice'', lc_endpoint = ''http://edge.local/sensor001'',
         lc_created_at = 0\<rparr>],
      authz = [\<lparr>la_data_id = ''sensor001'', la_access_grantee_id = ''bob'',
         la_expire_at = 1577836800, la_created_at = 0\<rparr>]\<rparr>
     \<lparr>az_data_id = ''sensor001'', az_access_grantee_id = ''bob'',
       az_expire_at = ''2025-11-03T12:00:00Z'', az_expire_time = ''2025-11-02T21:45:00Z'',
       az_signature = ''PEM-A|sensor001bob2025-11-03T12:00:00Z2025-11-02T21:45:00Z''\<rparr>
   = (Inl (HTTPException 400 (Txt ''AuthZ already exists.'')),
      \<lparr>catalog = [\<lparr>lc_data_id = ''sensor001'', lc_description = Some ''Temperature'',
         lc_admin_id = ''alice'', lc_endpoint = ''http://edge.local/sensor001'',
         lc_created_at = 0\<rparr>],
      authz = [\<lparr>la_data_id = ''sensor001'', la_access_grantee_id = ''bob'',
         la_expire_at = 1577836800, la_created_at = 0\<rparr>]\<rparr>)
   \<and> add_authz demo_env 1762119000
     (snd (lca_step demo_env 1762119000 1762119000
        (DeleteAuthz ''sensor001'' ''bob''
           \<lparr>sa_expire_time = ''2025-11-02T21:45:00Z'',
             sa_signature = ''PEM-A|sensor001bob2025-11-02T21:45:00Z''\<rparr>)
        \<lparr>catalog = [\<lparr>lc_data_id = ''sensor001'', lc_description = Some ''Temperature'',
           lc_admin_id = ''alice'', lc_endpoint = ''http://edge.local/sensor001'',
           lc_created_at = 0\<rparr>],
         authz = [\<lparr>la_data_id = ''sensor001'', la_access_grantee_id = ''bob'',
           la_expire_at = 1577836800, la_created_at = 0\<rparr>]\<rparr>))
     \<lparr>az_data_id = ''sensor001'', az_access_grantee_id = ''bob'',
       az_expire_at = ''2025-11-03T12:00:00Z'', az_expire_time = ''2025-11-02T21:45:00Z'',
       az_signature = ''PEM-A|sensor001bob2025-11-03T12:00:00Z2025-11-02T21:45:00Z''\<rparr>
   = (Inr (AuthZAdded ''bob'' ''2025-11-03T12:00:00Z''),
      \<lparr>catalog = [\<lparr>lc_data_id = ''sensor001'', lc_description = Some ''Temperature'',
         lc_admin_id = ''alice'', lc_endpoint = ''http://edge.local/sensor001'',
         lc_created_at = 0\<rparr>],
      authz = [\<lparr>la_data_id = ''sensor001'', la_access_grantee_id = ''bob'',
         la_expire_at = 1762171200, la_created_at = 1762119000\<rparr>]\<rparr>)
   \<and> revokes ''sensor001'' ''bob''
        (DeleteAuthz ''sensor001'' ''bob''
           \<lparr>sa_expire_time = ''2025-11-02T21:45:00Z'',
             sa_signature = ''PEM-A|sensor001bob2025-11-02T21:45:00Z''\<rparr>)"
proof -
  let ?db = "\<lparr>catalog = [\<lparr>lc_data_id = ''sensor001'', lc_description = Some ''Temperature'',
         lc_admin_id = ''alice'', lc_endpoint = ''http://edge.local/sensor001'',
         lc_created_at = 0\<rparr>],
      authz = [\<lparr>la_data_id = ''sensor001'', la_access_grantee_id = ''bob'',
         la_expire_at = 1577836800, la_created_at = 0\<rparr>]\<rparr>"
  let ?item = "\<lparr>az_data_id = ''sensor001'', az_access_grantee_id = ''bob'',
       az_expire_at = ''2025-11-03T12:00:00Z'', az_expire_time = ''2025-11-02T21:45:00Z'',
       az_signature = ''PEM-A|sensor001bob2025-11-03T12:00:00Z2025-11-02T21:45:00Z''\<rparr>"
  let ?revoke = "DeleteAuthz ''sensor001'' ''bob''
           \<lparr>sa_expire_time = ''2025-11-02T21:45:00Z'',
             sa_signature = ''PEM-A|sensor001bob2025-11-02T21:45:00Z''\<rparr>"
  have c: "check_expire_time demo_env 1762119000 ''2025-11-02T21:45:00Z'' = Inr True"
    by (simp add: check_expire_time_def demo_env_def demo_fromisoformat_def replace_Z_def)
  have k: "get_public_key demo_env ''alice'' = Inr (Some ''PEM-A'')"
    by (simp add: get_public_key_def get_public_key_try_def demo_env_def demo_requests_get_def
          PUBLIC_KEY_REGISTRY_URL_def)
  have p: "fromisoformat demo_env (replace_Z ''2025-11-03T12:00:00Z'') = Some (Aware 1762171200)"
    by (simp add: demo_env_def demo_fromisoformat_def replace_Z_def)
  have v: "\<And>m. verify_signature demo_env (Some ''PEM-A'') m (''PEM-A|'' @ m) = Inr True"
    by (simp add: verify_signature_def demo_env_def demo_ecdsa_def)
  have a: "get_admin_id_by_data_id ?db ''sensor001'' = Inr ''alice''"
    by (simp add: get_admin_id_by_data_id_def get_admin_id_by_data_id_try_def)
  have g: "has_grant ''sensor001'' ''bob'' ?db" by (simp add: has_grant_def)
  have 1: "get_authz demo_env 1762119000 1762119000 ?db ''sensor001''
             \<lparr>sg_admin_id = ''alice'', sg_expire_time = ''2025-11-02T21:45:00Z'',
               sg_signature = ''PEM-A|2025-11-02T21:45:00Z''\<rparr>
           = (Inr (AuthZInfo ''sensor001'' 0 []), ?db)"
    using v [of "''2025-11-02T21:45:00Z''"] by (simp add: get_authz_def c k)
  have 2: "add_authz demo_env 1762119000 ?db ?item
             = (Inl (HTTPException 400 (Txt ''AuthZ already exists.'')), ?db)"
    using duplicate_grant_rejected [where item = ?item and db = ?db and E = demo_env
        and now = 1762119000 and admin_id = "''alice''" and key = "Some ''PEM-A''"]
      g c k a v [of "''sensor001bob2025-11-03T12:00:00Z2025-11-02T21:45:00Z''"]
    by simp
  have r: "snd (lca_step demo_env 1762119000 1762119000 ?revoke ?db)
             = \<lparr>catalog = catalog ?db, authz = []\<rparr>"
    using v [of "''sensor001bob2025-11-02T21:45:00Z''"]
    by (simp add: delete_authz_def c k a)
  then have n: "\<not> has_grant ''sensor001'' ''bob''
                  (snd (lca_step demo_env 1762119000 1762119000 ?revoke ?db))"
    by (simp add: has_grant_def)
  have 3: "revokes ''sensor001'' ''bob'' ?revoke"
    using duplicate_grant_rejected [where d = "''sensor001''" and g = "''bob''" and db = ?db
        and E = demo_env and now = 1762119000 and now' = 1762119000 and op = ?revoke] g n
    by blast
  have 4: "add_authz demo_env 1762119000 \<lparr>catalog = catalog ?db, authz = []\<rparr> ?item
      = (Inr (AuthZAdded ''bob'' ''2025-11-03T12:00:00Z''),
         \<lparr>catalog = catalog ?db,
          authz = [\<lparr>la_data_id = ''sensor001'', la_access_grantee_id = ''bob'',
            la_expire_at = 1762171200, la_created_at = 1762119000\<rparr>]\<rparr>)"
    using v [of "''sensor001bob2025-11-03T12:00:00Z2025-11-02T21:45:00Z''"]
    by (simp add: add_authz_def c k p to_timestamptz_def get_admin_id_by_data_id_def
          get_admin_id_by_data_id_try_def)
  from 1 2 3 4 r show ?thesis by simp
qed

section \<open>Deleting a resource deletes its grants\<close>

lemma get_authz_no_grants:
  assumes "grants_of data_id db = []"
    and "get_authz E now now' db data_id req = (Inr (AuthZInfo d c l), db')"
  shows "c = 0 \<and> l = []"
proof -
  from assms(1) have "filter (\<lambda>a. la_data_id a = data_id \<and> la_expire_at a > now') (authz db) = []"
    by (auto simp: grants_of_def filter_empty_conv)
  with assms(2) show ?thesis
    by (auto simp: get_authz_def Let_def split: option.splits if_splits sum.splits)
qed

lemma add_data_grants: "grants_of d (snd (add_data E now db item)) = grants_of d db"
  using add_data_effect [of E now db item] by (simp add: grants_of_def)

text \<open>
  Claim C8. After a successful \<open>delete_data\<close>, whatever number of grants the resource
  held, no grant of that \<open>data_id\<close> is left and the resource is gone, both in the one
  store that the handler commits; the grants of other resources are as before;
  \<open>get_authz\<close> for the \<open>data_id\<close> answers 404. If \<open>add_data\<close> then succeeds on that
  store, the \<open>data_id\<close> still has no grant, and a \<open>get_authz\<close> that succeeds lists
  none.
\<close>

theorem revoke_resource_cascade:
  "delete_data E now db data_id req = (Inr r, db') \<longrightarrow>
     grants_of data_id db' = []
     \<and> find (\<lambda>r. lc_data_id r = data_id) (catalog db') = None
     \<and> (data_id' \<noteq> data_id \<longrightarrow> grants_of data_id' db' = grants_of data_id' db)
     \<and> get_authz E1 n n' db' data_id greq
          = (Inl (HTTPException 404 (Txt ''DataID not found.'')), db')
     \<and> (add_data E2 m db' item = (Inr r2, db'') \<longrightarrow>
          grants_of data_id db'' = []
          \<and> (get_authz E3 k k' db'' data_id greq' = (Inr (AuthZInfo d c l), db3)
               \<longrightarrow> c = 0 \<and> l = []))"
proof (intro impI)
  assume del: "delete_data E now db data_id req = (Inr r, db')"
  note db' = delete_data_success [OF del]
  from db' have g: "grants_of data_id db' = []"
    by (simp add: grants_of_def filter_empty_conv)
  from db' have f: "find (\<lambda>r. lc_data_id r = data_id) (catalog db') = None"
    by (simp add: find_None_iff)
  from db' have o: "data_id' \<noteq> data_id \<longrightarrow> grants_of data_id' db' = grants_of data_id' db"
    by (auto simp: grants_of_def intro: filter_cong)
  from f have q: "get_authz E1 n n' db' data_id greq
          = (Inl (HTTPException 404 (Txt ''DataID not found.'')), db')"
    by (simp add: get_authz_def)
  have p: "add_data E2 m db' item = (Inr r2, db'') \<longrightarrow>
          grants_of data_id db'' = []
          \<and> (get_authz E3 k k' db'' data_id greq' = (Inr (AuthZInfo d c l), db3)
               \<longrightarrow> c = 0 \<and> l = [])"
  proof (intro impI)
    assume "add_data E2 m db' item = (Inr r2, db'')"
    with add_data_grants [of data_id E2 m db' item] g
    have g'': "grants_of data_id db'' = []" by simp
    moreover have "get_authz E3 k k' db'' data_id greq' = (Inr (AuthZInfo d c l), db3)
               \<longrightarrow> c = 0 \<and> l = []"
      using get_authz_no_grants [OF g''] by blast
    ultimately show "grants_of data_id db'' = []
          \<and> (get_authz E3 k k' db'' data_id greq' = (Inr (AuthZInfo d c l), db3)
               \<longrightarrow> c = 0 \<and> l = [])" by blast
  qed
  from g f o q p show "grants_of data_id db' = []
     \<and> find (\<lambda>r. lc_data_id r = data_id) (catalog db') = None
     \<and> (data_id' \<noteq> data_id \<longrightarrow> grants_of data_id' db' = grants_of data_id' db)
     \<and> get_authz E1 n n' db' data_id greq
          = (Inl (HTTPException 404 (Txt ''DataID not found.'')), db')
     \<and> (add_data E2 m db' item = (Inr r2, db'') \<longrightarrow>
          grants_of data_id db'' = []
          \<and> (get_authz E3 k k' db'' data_id greq' = (Inr (AuthZInfo d c l), db3)
               \<longrightarrow> c = 0 \<and> l = []))" by blast
qed


text \<open>The theorem at a resource with two grants beside a second resource with one:
  deletion, then publication of the same \<open>data_id\<close> again.\<close>

theorem revoke_resource_cascade_witness:
  "length (grants_of ''sensor001''
      \<lparr>catalog = [\<lparr>lc_data_id = ''sensor001'', lc_description = Some ''Temperature'',
           lc_admin_id = ''alice'', lc_endpoint = ''http://edge.local/sensor001'',
           lc_created_at = 0\<rparr>,
         \<lparr>lc_data_id = ''camera002'', lc_description = Some ''Camera'',
           lc_admin_id = ''alice'', lc_endpoint = ''http://edge.local/camera002'',
           lc_created_at = 0\<rparr>],
       authz = [\<lparr>la_data_id = ''sensor001'', la_access_grantee_id = ''bob'',
           la_expire_at = 1762171200, la_created_at = 0\<rparr>,
         \<lparr>la_data_id = ''camera002'', la_access_grantee_id = ''bob'',
           la_expire_at = 1762171200, la_created_at = 0\<rparr>,
         \<lparr>la_data_id = ''sensor001'', la_access_grantee_id = ''carol'',
           la_expire_at = 1762171200, la_created_at = 0\<rparr>]\<rparr>) = 2
   \<and> delete_data demo_env 1762119000
      \<lparr>catalog = [\<lparr>lc_data_id = ''sensor001'', lc_description = Some ''Temperature'',
           lc_admin_id = ''alice'', lc_endpoint = ''http://edge.local/sensor001'',
           lc_created_at = 0\<rparr>,
         \<lparr>lc_data_id = ''camera002'', lc_description = Some ''Camera'',
           lc_admin_id = ''alice'', lc_endpoint = ''http://edge.local/camera002'',
           lc_created_at = 0\<rparr>],
       authz = [\<lparr>la_data_id = ''sensor001'', la_access_grantee_id = ''bob'',
           la_expire_at = 1762171200, la_created_at = 0\<rparr>,
         \<lparr>la_data_id = ''camera002'', la_access_grantee_id = ''bob'',
           la_expire_at = 1762171200, la_created_at = 0\<rparr>,
         \<lparr>la_data_id = ''sensor001'', la_access_grantee_id = ''carol'',
           la_expire_at = 1762171200, la_created_at = 0\<rparr>]\<rparr>
      ''sensor001''
      \<lparr>sd_description = Some ''Temperature'', sd_admin_id = ''alice'',
         sd_endpoint = ''http://edge.local/sensor001'', sd_expire_time = ''2025-11-02T21:45:00Z'',
         sd_signature = ''PEM-A|sensor001Temperaturealicehttp://edge.local/sensor0012025-11-02T21:45:00Z''\<rparr>
     = (Inr (DataDeleted ''sensor001''),
      \<lparr>catalog = [\<lparr>lc_data_id = ''camera002'', lc_description = Some ''Camera'',
           lc_admin_id = ''alice'', lc_endpoint = ''http://edge.local/camera002'',
           lc_created_at = 0\<rparr>],
       authz = [\<lparr>la_data_id = ''camera002'', la_access_grantee_id = ''bob'',
           la_expire_at = 1762171200, la_created_at = 0\<rparr>]\<rparr>)
   \<and> grants_of ''sensor001''
      \<lparr>catalog = [\<lparr>lc_data_id = ''camera002'', lc_description = Some ''Camera'',
           lc_admin_id = ''alice'', lc_endpoint = ''http://edge.local/camera002'',
           lc_created_at = 0\<rparr>],
       authz = [\<lparr>la_data_id = ''camera002'', la_access_grantee_id = ''bob'',
           la_expire_at = 1762171200, la_created_at = 0\<rparr>]\<rparr> = []
   \<and> get_authz demo_env 1762119000 1762119000
      \<lparr>catalog = [\<lparr>lc_data_id = ''camera002'', lc_description = Some ''Camera'',
           lc_admin_id = ''alice'', lc_endpoint = ''http://edge.local/camera002'',
           lc_created_at = 0\<rparr>],
       authz = [\<lparr>la_data_id = ''camera002'', la_access_grantee_id = ''bob'',
           la_expire_at = 1762171200, la_created_at = 0\<rparr>]\<rparr>
      ''sensor001''
      \<lparr>sg_admin_id = ''alice'', sg_expire_time = ''2025-11-02T21:45:00Z'',
         sg_signature = ''PEM-A|2025-11-02T21:45:00Z''\<rparr>
     = (Inl (HTTPException 404 (Txt ''DataID not found.'')),
      \<lparr>catalog = [\<lparr>lc_data_id = ''camera002'', lc_description = Some ''Camera'',
           lc_admin_id = ''alice'', lc_endpoint = ''http://edge.local/camera002'',
           lc_created_at = 0\<rparr>],
       authz = [\<lparr>la_data_id = ''camera002'', la_access_grantee_id = ''bob'',
           la_expire_at = 1762171200, la_created_at = 0\<rparr>]\<rparr>)
   \<and> add_data demo_env 1762119000
      \<lparr>catalog = [\<lparr>lc_data_id = ''camera002'', lc_description = Some ''Camera'',
           lc_admin_id = ''alice'', lc_endpoint = ''http://edge.local/camera002'',
           lc_created_at = 0\<rparr>],
       authz = [\<lparr>la_data_id = ''camera002'', la_access_grantee_id = ''bob'',
           la_expire_at = 1762171200, la_created_at = 0\<rparr>]\<rparr>
      \<lparr>di_data_id = ''sensor001'', di_description = Some ''Temperature'',
         di_admin_id = ''alice'', di_endpoint = ''http://edge.local/sensor001'',
         di_expire_time = ''2025-11-02T21:45:00Z'',
         di_signature = ''PEM-A|sensor001Temperaturealicehttp://edge.local/sensor0012025-11-02T21:45:00Z''\<rparr>
     = (Inr (DataRegistered ''sensor001''),
      \<lparr>catalog = [\<lparr>lc_data_id = ''camera002'', lc_description = Some ''Camera'',
           lc_admin_id = ''alice'', lc_endpoint = ''http://edge.local/camera002'',
           lc_created_at = 0\<rparr>,
         \<lparr>lc_data_id = ''sensor001'', lc_description = Some ''Temperature'',
           lc_admin_id = ''alice'', lc_endpoint = ''http://edge.local/sensor001'',
           lc_created_at = 1762119000\<rparr>],
       authz = [\<lparr>la_data_id = ''camera002'', la_access_grantee_id = ''bob'',
           la_expire_at = 1762171200, la_created_at = 0\<rparr>]\<rparr>)
   \<and> get_authz demo_env 1762119000 1762119000
      \<lparr>catalog = [\<lparr>lc_data_id = ''camera002'', lc_description = Some ''Camera'',
           lc_admin_id = ''alice'', lc_endpoint = ''http://edge.local/camera002'',
           lc_created_at = 0\<rparr>,
         \<lparr>lc_data_id = ''sensor001'', lc_description = Some ''Temperature'',
           lc_admin_id = ''alice'', lc_endpoint = ''http://edge.local/sensor001'',
           lc_created_at = 1762119000\<rparr>],
       authz = [\<lparr>la_data_id = ''camera002'', la_access_grantee_id = ''bob'',
           la_expire_at = 1762171200, la_created_at = 0\<rparr>]\<rparr>
      ''sensor001''
      \<lparr>sg_admin_id = ''alice'', sg_expire_time = ''2025-11-02T21:45:00Z'',
         sg_signature = ''PEM-A|2025-11-02T21:45:00Z''\<rparr>
     = (Inr (AuthZInfo ''sensor001'' 0 []),
      \<lparr>catalog = [\<lparr>lc_data_id = ''camera002'', lc_description = Some ''Camera'',
           lc_admin_id = ''alice'', lc_endpoint = ''http://edge.local/camera002'',
           lc_created_at = 0\<rparr>,
         \<lparr>lc_data_id = ''sensor001'', lc_description = Some ''Temperature'',
           lc_admin_id = ''alice'', lc_endpoint = ''http://edge.local/sensor001'',
           lc_created_at = 1762119000\<rparr>],
       authz = [\<lparr>la_data_id = ''camera002'', la_access_grantee_id = ''bob'',
           la_expire_at = 1762171200, la_created_at = 0\<rparr>]\<rparr>)"
proof -
  let ?db = "\<lparr>catalog = [\<lparr>lc_data_id = ''sensor001'', lc_description = Some ''Temperature'',
           lc_admin_id = ''alice'', lc_endpoint = ''http://edge.local/sensor001'',
           lc_created_at = 0\<rparr>,
         \<lparr>lc_data_id = ''camera002'', lc_description = Some ''Camera'',
           lc_admin_id = ''alice'', lc_endpoint = ''http://edge.local/camera002'',
           lc_created_at = 0\<rparr>],
       authz = [\<lparr>la_data_id = ''sensor001'', la_access_grantee_id = ''bob'',
           la_expire_at = 1762171200, la_created_at = 0\<rparr>,
         \<lparr>la_data_id = ''camera002'', la_access_grantee_id = ''bob'',
           la_expire_at = 1762171200, la_created_at = 0\<rparr>,
         \<lparr>la_data_id = ''sensor001'', la_access_grantee_id = ''carol'',
           la_expire_at = 1762171200, la_created_at = 0\<rparr>]\<rparr>"
  let ?db1 = "\<lparr>catalog = [\<lparr>lc_data_id = ''camera002'', lc_description = Some ''Camera'',
           lc_admin_id = ''alice'', lc_endpoint = ''http://edge.local/camera002'',
           lc_created_at = 0\<rparr>],
       authz = [\<lparr>la_data_id = ''camera002'', la_access_grantee_id = ''bob'',
           la_expire_at = 1762171200, la_created_at = 0\<rparr>]\<rparr>"
  let ?db2 = "\<lparr>catalog = [\<lparr>lc_data_id = ''camera002'', lc_description = Some ''Camera'',
           lc_admin_id = ''alice'', lc_endpoint = ''http://edge.local/camera002'',
           lc_created_at = 0\<rparr>,
         \<lparr>lc_data_id = ''sensor001'', lc_description = Some ''Temperature'',
           lc_admin_id = ''alice'', lc_endpoint = ''http://edge.local/sensor001'',
           lc_created_at = 1762119000\<rparr>],
       authz = [\<lparr>la_data_id = ''camera002'', la_access_grantee_id = ''bob'',
           la_expire_at = 1762171200, la_created_at = 0\<rparr>]\<rparr>"
  let ?req = "\<lparr>sd_description = Some ''Temperature'', sd_admin_id = ''alice'',
         sd_endpoint = ''http://edge.local/sensor001'', sd_expire_time = ''2025-11-02T21:45:00Z'',
         sd_signature = ''PEM-A|sensor001Temperaturealicehttp://edge.local/sensor0012025-11-02T21:45:00Z''\<rparr>"
  let ?item = "\<lparr>di_data_id = ''sensor001'', di_description = Some ''Temperature'',
         di_admin_id = ''alice'', di_endpoint = ''http://edge.local/sensor001'',
         di_expire_time = ''2025-11-02T21:45:00Z'',
         di_signature = ''PEM-A|sensor001Temperaturealicehttp://edge.local/sensor0012025-11-02T21:45:00Z''\<rparr>"
  let ?greq = "\<lparr>sg_admin_id = ''alice'', sg_expire_time = ''2025-11-02T21:45:00Z'',
         sg_signature = ''PEM-A|2025-11-02T21:45:00Z''\<rparr>"
  have c: "check_expire_time demo_env 1762119000 ''2025-11-02T21:45:00Z'' = Inr True"
    by (simp add: check_expire_time_def demo_env_def demo_fromisoformat_def replace_Z_def)
  have k: "get_public_key demo_env ''alice'' = Inr (Some ''PEM-A'')"
    by (simp add: get_public_key_def get_public_key_try_def demo_env_def demo_requests_get_def
          PUBLIC_KEY_REGISTRY_URL_def)
  have v: "\<And>m. verify_signature demo_env (Some ''PEM-A'') m (''PEM-A|'' @ m) = Inr True"
    by (simp add: verify_signature_def demo_env_def demo_ecdsa_def)
  have n: "length (grants_of ''sensor001'' ?db) = 2" by (simp add: grants_of_def)
  have del: "delete_data demo_env 1762119000 ?db ''sensor001'' ?req
               = (Inr (DataDeleted ''sensor001''), ?db1)"
    using v [of "''sensor001Temperaturealicehttp://edge.local/sensor0012025-11-02T21:45:00Z''"]
    by (simp add: delete_data_def c k data_msg_def or_empty_def)
  have add: "add_data demo_env 1762119000 ?db1 ?item = (Inr (DataRegistered ''sensor001''), ?db2)"
    using v [of "''sensor001Temperaturealicehttp://edge.local/sensor0012025-11-02T21:45:00Z''"]
    by (simp add: add_data_def c k data_msg_def)
  have get: "get_authz demo_env 1762119000 1762119000 ?db2 ''sensor001'' ?greq
               = (Inr (AuthZInfo ''sensor001'' (length ([]::(string \<times> int) list)) []), ?db2)"
    using v [of "''2025-11-02T21:45:00Z''"] by (simp add: get_authz_def c k)
  note t = revoke_resource_cascade [where E = demo_env and now = 1762119000 and db = ?db
      and data_id = "''sensor001''" and req = ?req and r = "DataDeleted ''sensor001''"
      and db' = ?db1 and ?E1.0 = demo_env and n = 1762119000 and n' = 1762119000
      and greq = ?greq and ?E2.0 = demo_env and m = 1762119000 and item = ?item
      and ?r2.0 = "DataRegistered ''sensor001''" and db'' = ?db2]
  from t del have 1: "grants_of ''sensor001'' ?db1 = []" by blast
  from t del have 2: "get_authz demo_env 1762119000 1762119000 ?db1 ''sensor001'' ?greq
     = (Inl (HTTPException 404 (Txt ''DataID not found.'')), ?db1)" by blast
  from n del 1 2 add get show ?thesis by simp
qed

end
